theory Spec2Isabelle
  imports Complex_Main
begin

section \<open>The FAISS-backed training store of \<^verbatim>\<open>backend/vanna_config.py\<close>\<close>

text \<open>
  A shallow embedding of class \<^verbatim>\<open>FAISS_VectorStore\<close>. The object's mutable fields
  (\<^verbatim>\<open>self.dimension\<close>, \<^verbatim>\<open>self.index\<close>, \<^verbatim>\<open>self.metadata\<close>) are a record that every
  method takes and returns; the three files under \<^verbatim>\<open>self.path\<close> are a second record.
  Every Python exception is a value of type \<open>error\<close>. What the program gets from
  outside (the embedding provider, \<^verbatim>\<open>uuid4\<close>, the answers of the search library, the
  fate of each write) is the environment of a call.

  Idealisations, stated once: an embedding is a list of reals (the source converts the
  provider's floats to \<^verbatim>\<open>float32\<close>; rounding, infinities and NaN are not modelled), and a
  metadata dictionary is an association list from keys to string values, read with
  \<^const>\<open>map_of\<close>.
\<close>

subsection \<open>Data\<close>

type_synonym embedding = "real list"

type_synonym entry = "(string \<times> string) list"

text \<open>
  The exceptions of the source, under the names of the specification's taxonomy where
  it has one: \<open>DimensionMismatch\<close> is the \<^verbatim>\<open>ValueError\<close> of \<^verbatim>\<open>add_embeddings\<close>,
  \<open>ProviderError\<close> is whatever \<^verbatim>\<open>generate_embedding\<close> raises, \<open>StorageError\<close> is whatever a
  file read or write raises, \<open>FaissAssertion\<close> is the library's refusal of a vector whose
  width is not the index's, \<open>KeyError\<close> and \<open>IndexError\<close> are Python's, and
  \<open>AttributeError\<close> is a method call on \<^verbatim>\<open>None\<close>. \<open>UnsupportedOperation\<close> is in the
  specification's taxonomy; no line of the source raises it.
\<close>

datatype error =
  DimensionMismatch
  | ProviderError
  | StorageError
  | FaissAssertion
  | KeyError
  | IndexError
  | AttributeError
  | UnsupportedOperation

text \<open>\<^verbatim>\<open>faiss.IndexFlatL2\<close>: its width \<^verbatim>\<open>d\<close> and its rows in insertion order.\<close>

record faiss_index =
  faiss_d :: int
  faiss_rows :: "embedding list"

definition ntotal :: "faiss_index \<Rightarrow> nat" where
  "ntotal ix = length (faiss_rows ix)"

record store =
  dimension :: "int option"
  index :: "faiss_index option"
  metadata :: "entry list"

text \<open>
  A file is absent, present but unreadable (truncated, corrupt), or holds a value. The
  directory of the store holds \<^verbatim>\<open>faiss.index\<close>, \<^verbatim>\<open>metadata.pkl\<close> and \<^verbatim>\<open>dimension.txt\<close>.
  An index file can hold the library's null index, which \<^verbatim>\<open>faiss.write_index\<close> writes for
  \<^verbatim>\<open>None\<close> and \<^verbatim>\<open>faiss.read_index\<close> reads back as \<^verbatim>\<open>None\<close>.
\<close>

datatype 'a artifact = Absent | Unreadable | Holds 'a

record disk =
  index_path :: "faiss_index option artifact"
  metadata_path :: "entry list artifact"
  dimension_path :: "int artifact"

definition path_exists :: "'a artifact \<Rightarrow> bool" where
  "path_exists f = (case f of Absent \<Rightarrow> False | Unreadable \<Rightarrow> True | Holds v \<Rightarrow> True)"

text \<open>
  What the environment does to one write of Python's (\<^verbatim>\<open>open\<close>, \<^verbatim>\<open>write\<close>,
  \<^verbatim>\<open>pickle.dump\<close>): it succeeds, it is refused before the file is touched, or it fails
  after the file was opened for writing and leaves it unreadable. Each failure raises.
\<close>

datatype write_outcome = Written | Refused | Torn

definition write_file :: "write_outcome \<Rightarrow> 'a \<Rightarrow> 'a artifact \<Rightarrow> (error + unit) \<times> 'a artifact" where
  "write_file w v f =
     (case w of
        Written \<Rightarrow> (Inr (), Holds v)
      | Refused \<Rightarrow> (Inl StorageError, f)
      | Torn \<Rightarrow> (Inl StorageError, Unreadable))"

text \<open>
  \<^verbatim>\<open>faiss.write_index\<close> has a fourth outcome: the library reports a failure of the final
  \<^verbatim>\<open>fclose\<close> on \<^verbatim>\<open>stderr\<close> only, so the call returns normally and leaves a truncated
  file.
\<close>

datatype index_write = Index_written | Index_refused | Index_torn | Index_unreported

definition write_index ::
  "index_write \<Rightarrow> faiss_index option \<Rightarrow> faiss_index option artifact \<Rightarrow>
     (error + unit) \<times> faiss_index option artifact" where
  "write_index w ixo f =
     (case w of
        Index_written \<Rightarrow> (Inr (), Holds ixo)
      | Index_refused \<Rightarrow> (Inl StorageError, f)
      | Index_torn \<Rightarrow> (Inl StorageError, Unreadable)
      | Index_unreported \<Rightarrow> (Inr (), Unreadable))"

text \<open>
  The environment of one call: the embedding provider (\<open>None\<close> when
  \<^verbatim>\<open>generate_embedding\<close> raises), the identifier \<^verbatim>\<open>str(uuid.uuid4())\<close> returns, the labels
  \<^verbatim>\<open>index.search\<close> returns for an index, a query and a number of neighbours (the library
  is not among the sources, so the source is modelled for whatever it answers), and the
  outcome of each of the three writes.
\<close>

record env =
  embed :: "string \<Rightarrow> embedding option"
  uuid4 :: string
  search :: "faiss_index \<Rightarrow> embedding \<Rightarrow> nat \<Rightarrow> error + int list"
  w_dimension :: write_outcome
  w_index :: index_write
  w_metadata :: write_outcome

subsection \<open>Construction: \<^verbatim>\<open>__init__\<close>\<close>

text \<open>
  Lines 31 and 40--55. The argument is \<^verbatim>\<open>config.get('embedding_dimension', None)\<close>.
  An unreadable \<^verbatim>\<open>dimension.txt\<close> makes \<^verbatim>\<open>int(...)\<close> raise; without that file, line 50 reads
  \<^verbatim>\<open>self.index.d\<close>, which raises when the index file held the null index.
\<close>

definition init_store :: "int option \<Rightarrow> disk \<Rightarrow> error + store" where
  "init_store embedding_dimension dk =
     (if path_exists (index_path dk) \<and> path_exists (metadata_path dk) then
        (case index_path dk of
           Holds ixo \<Rightarrow>
             (case metadata_path dk of
                Holds md \<Rightarrow>
                  (case dimension_path dk of
                     Absent \<Rightarrow>
                       (case ixo of
                          None \<Rightarrow> Inl AttributeError
                        | Some ix \<Rightarrow>
                            Inr \<lparr>dimension = Some (faiss_d ix), index = Some ix,
                                 metadata = md\<rparr>)
                   | Unreadable \<Rightarrow> Inl StorageError
                   | Holds n \<Rightarrow> Inr \<lparr>dimension = Some n, index = ixo, metadata = md\<rparr>)
              | Unreadable \<Rightarrow> Inl StorageError
              | Absent \<Rightarrow> Inl StorageError)
         | Unreadable \<Rightarrow> Inl StorageError
         | Absent \<Rightarrow> Inl StorageError)
      else Inr \<lparr>dimension = embedding_dimension, index = None, metadata = []\<rparr>)"

subsection \<open>\<^verbatim>\<open>_init_index\<close>, \<^verbatim>\<open>_save\<close> and \<^verbatim>\<open>add_embeddings\<close>\<close>

text \<open>
  \<^verbatim>\<open>_init_index\<close> assigns both fields before it opens \<^verbatim>\<open>dimension.txt\<close>, so a failed write
  leaves them assigned.
\<close>

definition init_index :: "env \<Rightarrow> int \<Rightarrow> store \<times> disk \<Rightarrow> (error + unit) \<times> store \<times> disk" where
  "init_index ev n st =
     (let s' = (fst st)\<lparr>dimension := Some n,
                         index := Some \<lparr>faiss_d = n, faiss_rows = []\<rparr>\<rparr>;
          (r, f') = write_file (w_dimension ev) n (dimension_path (snd st))
      in (r, s', (snd st)\<lparr>dimension_path := f'\<rparr>))"

text \<open>\<^verbatim>\<open>index.add\<close> of one row: the library asserts that the row has the index's width.\<close>

definition index_add :: "faiss_index \<Rightarrow> embedding \<Rightarrow> error + faiss_index" where
  "index_add ix v =
     (if int (length v) = faiss_d ix then Inr (ix\<lparr>faiss_rows := faiss_rows ix @ [v]\<rparr>)
      else Inl FaissAssertion)"

text \<open>
  \<^verbatim>\<open>_save\<close> writes the index, then the ledger; it does not write \<^verbatim>\<open>dimension.txt\<close>. The
  first write that raises ends it; an index write that fails without raising does not.
\<close>

definition save :: "env \<Rightarrow> store \<Rightarrow> disk \<Rightarrow> (error + unit) \<times> disk" where
  "save ev s dk =
     (case write_index (w_index ev) (index s) (index_path dk) of
        (Inl err, f1) \<Rightarrow> (Inl err, dk\<lparr>index_path := f1\<rparr>)
      | (Inr u, f1) \<Rightarrow>
          (case write_file (w_metadata ev) (metadata s) (metadata_path dk) of
             (r, f2) \<Rightarrow> (r, dk\<lparr>index_path := f1, metadata_path := f2\<rparr>)))"

text \<open>
  Lines 81--96: the index is created on the first call, then come the width check, the
  two in-memory appends and the save. Nothing catches an exception of the save.
\<close>

definition add_embeddings ::
  "env \<Rightarrow> embedding \<Rightarrow> entry \<Rightarrow> store \<times> disk \<Rightarrow> (error + unit) \<times> store \<times> disk" where
  "add_embeddings ev embeddings md st =
     (case (if index (fst st) = None then init_index ev (int (length embeddings)) st
            else (Inr (), st)) of
        (Inl err, st1) \<Rightarrow> (Inl err, st1)
      | (Inr u, st1) \<Rightarrow>
          if Some (int (length embeddings)) \<noteq> dimension (fst st1)
          then (Inl DimensionMismatch, st1)
          else
            (case index (fst st1) of
               None \<Rightarrow> (Inl AttributeError, st1)
             | Some ix \<Rightarrow>
                 (case index_add ix embeddings of
                    Inl err \<Rightarrow> (Inl err, st1)
                  | Inr ix' \<Rightarrow>
                      (let s2 = (fst st1)\<lparr>index := Some ix',
                                            metadata := metadata (fst st1) @ [md]\<rparr>;
                           (r, dk') = save ev s2 (snd st1)
                       in (r, s2, dk')))))"

subsection \<open>The library's search\<close>

text \<open>
  Modelled from the spec: \<^verbatim>\<open>faiss.IndexFlatL2.search\<close>, a library that is not among the
  sources. Section 4.2 of the specification gives its contract: a brute-force linear
  scan that ranks the stored rows by squared Euclidean distance to the query, earlier
  rows first among equal distances, and returns the first \<open>k\<close>. The scan below keeps
  the hits seen so far in rank order and puts each new hit behind every hit that is not
  farther; the labels of a search for more rows than are stored are padded with \<open>-1\<close>,
  as the library does. This is the search of the specification; the source itself is
  modelled for every answer of the library (the field \<open>search\<close> of the environment).
\<close>

definition l2sqr :: "embedding \<Rightarrow> embedding \<Rightarrow> real" where
  "l2sqr q v = sum_list (map (\<lambda>(a, b). (a - b) * (a - b)) (zip q v))"

fun insert_hit :: "int \<times> real \<Rightarrow> (int \<times> real) list \<Rightarrow> (int \<times> real) list" where
  "insert_hit h [] = [h]"
| "insert_hit h (x # xs) = (if snd h < snd x then h # x # xs else x # insert_hit h xs)"

fun scan :: "embedding \<Rightarrow> int \<Rightarrow> embedding list \<Rightarrow> (int \<times> real) list \<Rightarrow> (int \<times> real) list" where
  "scan q i [] acc = acc"
| "scan q i (v # vs) acc = scan q (i + 1) vs (insert_hit (i, l2sqr q v) acc)"

definition faiss_hits :: "faiss_index \<Rightarrow> embedding \<Rightarrow> nat \<Rightarrow> (int \<times> real) list" where
  "faiss_hits ix q k = take k (scan q 0 (faiss_rows ix) [])"

definition faiss_search :: "faiss_index \<Rightarrow> embedding \<Rightarrow> nat \<Rightarrow> error + int list" where
  "faiss_search ix q k =
     (if int (length q) \<noteq> faiss_d ix then Inl FaissAssertion
      else Inr (map fst (faiss_hits ix q k) @ replicate (k - length (faiss_hits ix q k)) (- 1)))"

text \<open>
  The library departs from that contract in two ways the source is exposed to. It
  asserts \<open>k > 0\<close>. And it computes in \<^verbatim>\<open>float32\<close>: a squared distance that is not below
  the largest \<^verbatim>\<open>float32\<close> number overflows, the row is no hit, and its slot keeps the
  label \<open>-1\<close>. The second search has both; rounding below that bound is still not
  modelled.
\<close>

definition float32_max :: real where
  "float32_max = 340282346638528859811704183484516925440"

definition faiss_hits32 :: "faiss_index \<Rightarrow> embedding \<Rightarrow> nat \<Rightarrow> (int \<times> real) list" where
  "faiss_hits32 ix q k =
     take k (filter (\<lambda>h. snd h < float32_max) (scan q 0 (faiss_rows ix) []))"

definition faiss_search32 :: "faiss_index \<Rightarrow> embedding \<Rightarrow> nat \<Rightarrow> error + int list" where
  "faiss_search32 ix q k =
     (if k = 0 \<or> int (length q) \<noteq> faiss_d ix then Inl FaissAssertion
      else Inr (map fst (faiss_hits32 ix q k) @
                replicate (k - length (faiss_hits32 ix q k)) (- 1)))"

subsection \<open>\<^verbatim>\<open>get_similar_embeddings\<close>\<close>

text \<open>Python's \<^verbatim>\<open>xs[i]\<close>: a negative index counts from the end.\<close>

definition py_index :: "'a list \<Rightarrow> int \<Rightarrow> error + 'a" where
  "py_index xs i =
     (if 0 \<le> i \<and> i < int (length xs) then Inr (xs ! nat i)
      else if i < 0 \<and> - int (length xs) \<le> i then Inr (xs ! nat (int (length xs) + i))
      else Inl IndexError)"

text \<open>The loop of lines 108--111 over the labels of the search.\<close>

fun collect :: "entry list \<Rightarrow> int list \<Rightarrow> error + entry list" where
  "collect md [] = Inr []"
| "collect md (idx # rest) =
     (if idx < int (length md) then
        (case py_index md idx of
           Inl err \<Rightarrow> Inl err
         | Inr r \<Rightarrow> (case collect md rest of Inl err \<Rightarrow> Inl err | Inr rs \<Rightarrow> Inr (r # rs)))
      else collect md rest)"

text \<open>
  Lines 98--114, for a library that answers \<open>lib\<close> to \<^verbatim>\<open>self.index.search\<close>; then the
  method over the search of the specification.
\<close>

definition get_similar_embeddings_with ::
  "(faiss_index \<Rightarrow> embedding \<Rightarrow> nat \<Rightarrow> error + int list) \<Rightarrow>
     store \<Rightarrow> embedding \<Rightarrow> nat \<Rightarrow> error + entry list" where
  "get_similar_embeddings_with lib s embedding n =
     (case index s of
        None \<Rightarrow> Inr []
      | Some ix \<Rightarrow>
          if ntotal ix = 0 then Inr []
          else
            (case lib ix embedding (min n (ntotal ix)) of
               Inl err \<Rightarrow> Inl err
             | Inr labels \<Rightarrow> collect (metadata s) labels))"

definition get_similar_embeddings :: "store \<Rightarrow> embedding \<Rightarrow> nat \<Rightarrow> error + entry list" where
  "get_similar_embeddings s embedding n =
     get_similar_embeddings_with faiss_search s embedding n"

subsection \<open>The public operations\<close>

definition add_ddl :: "env \<Rightarrow> string \<Rightarrow> store \<times> disk \<Rightarrow> (error + string) \<times> store \<times> disk" where
  "add_ddl ev ddl st =
     (case embed ev ddl of
        None \<Rightarrow> (Inl ProviderError, st)
      | Some e \<Rightarrow>
          (case add_embeddings ev e
                  [(''id'', uuid4 ev), (''type'', ''ddl''), (''content'', ddl)] st of
             (Inl err, st') \<Rightarrow> (Inl err, st')
           | (Inr u, st') \<Rightarrow> (Inr (uuid4 ev), st')))"

definition add_documentation ::
  "env \<Rightarrow> string \<Rightarrow> store \<times> disk \<Rightarrow> (error + string) \<times> store \<times> disk" where
  "add_documentation ev documentation st =
     (case embed ev documentation of
        None \<Rightarrow> (Inl ProviderError, st)
      | Some e \<Rightarrow>
          (case add_embeddings ev e
                  [(''id'', uuid4 ev), (''type'', ''documentation''),
                   (''content'', documentation)] st of
             (Inl err, st') \<Rightarrow> (Inl err, st')
           | (Inr u, st') \<Rightarrow> (Inr (uuid4 ev), st')))"

definition add_question_sql ::
  "env \<Rightarrow> string \<Rightarrow> string \<Rightarrow> store \<times> disk \<Rightarrow> (error + string) \<times> store \<times> disk" where
  "add_question_sql ev question sql st =
     (case embed ev question of
        None \<Rightarrow> (Inl ProviderError, st)
      | Some e \<Rightarrow>
          (case add_embeddings ev e
                  [(''id'', uuid4 ev), (''type'', ''question_sql''),
                   (''question'', question), (''sql'', sql)] st of
             (Inl err, st') \<Rightarrow> (Inl err, st')
           | (Inr u, st') \<Rightarrow> (Inr (uuid4 ev), st')))"

text \<open>\<^verbatim>\<open>r.get('type') == kind\<close> and \<^verbatim>\<open>r[key]\<close>.\<close>

definition has_type :: "string \<Rightarrow> entry \<Rightarrow> bool" where
  "has_type kind r = (map_of r ''type'' = Some kind)"

definition item :: "entry \<Rightarrow> string \<Rightarrow> error + string" where
  "item r key = (case map_of r key of None \<Rightarrow> Inl KeyError | Some v \<Rightarrow> Inr v)"

fun contents :: "entry list \<Rightarrow> error + string list" where
  "contents [] = Inr []"
| "contents (r # rs) =
     (case item r ''content'' of
        Inl err \<Rightarrow> Inl err
      | Inr c \<Rightarrow> (case contents rs of Inl err \<Rightarrow> Inl err | Inr cs \<Rightarrow> Inr (c # cs)))"

fun question_sqls :: "entry list \<Rightarrow> error + entry list" where
  "question_sqls [] = Inr []"
| "question_sqls (r # rs) =
     (case item r ''question'' of
        Inl err \<Rightarrow> Inl err
      | Inr q \<Rightarrow>
          (case item r ''sql'' of
             Inl err \<Rightarrow> Inl err
           | Inr sq \<Rightarrow>
               (case question_sqls rs of
                  Inl err \<Rightarrow> Inl err
                | Inr ps \<Rightarrow> Inr ([(''question'', q), (''sql'', sq)] # ps))))"

definition get_related_ddl :: "env \<Rightarrow> store \<Rightarrow> string \<Rightarrow> error + string list" where
  "get_related_ddl ev s question =
     (case embed ev question of
        None \<Rightarrow> Inl ProviderError
      | Some e \<Rightarrow>
          (case get_similar_embeddings_with (search ev) s e 10 of
             Inl err \<Rightarrow> Inl err
           | Inr results \<Rightarrow> contents (filter (has_type ''ddl'') results)))"

definition get_related_documentation :: "env \<Rightarrow> store \<Rightarrow> string \<Rightarrow> error + string list" where
  "get_related_documentation ev s question =
     (case embed ev question of
        None \<Rightarrow> Inl ProviderError
      | Some e \<Rightarrow>
          (case get_similar_embeddings_with (search ev) s e 10 of
             Inl err \<Rightarrow> Inl err
           | Inr results \<Rightarrow> contents (filter (has_type ''documentation'') results)))"

definition get_similar_question_sql :: "env \<Rightarrow> store \<Rightarrow> string \<Rightarrow> error + entry list" where
  "get_similar_question_sql ev s question =
     (case embed ev question of
        None \<Rightarrow> Inl ProviderError
      | Some e \<Rightarrow>
          (case get_similar_embeddings_with (search ev) s e 10 of
             Inl err \<Rightarrow> Inl err
           | Inr results \<Rightarrow> question_sqls (filter (has_type ''question_sql'') results)))"

definition get_training_data :: "store \<Rightarrow> entry list" where
  "get_training_data s = metadata s"

text \<open>Lines 199--203: a warning is logged, then \<^verbatim>\<open>pass\<close>; the method returns \<^verbatim>\<open>None\<close>.\<close>

definition remove_training_data :: "string \<Rightarrow> store \<times> disk \<Rightarrow> (error + unit) \<times> store \<times> disk" where
  "remove_training_data ident st = (Inr (), st)"

subsection \<open>Sequences of calls\<close>

datatype call =
  Add_ddl string
  | Add_documentation string
  | Add_question_sql string string
  | Get_related_ddl string
  | Get_related_documentation string
  | Get_similar_question_sql string
  | Get_training_data
  | Remove_training_data string

datatype reply = Ident string | Texts "string list" | Entries "entry list" | Nothing

definition reply_of ::
  "('a \<Rightarrow> reply) \<Rightarrow> (error + 'a) \<times> store \<times> disk \<Rightarrow> (error + reply) \<times> store \<times> disk" where
  "reply_of f out = (case out of (Inl err, st) \<Rightarrow> (Inl err, st) | (Inr v, st) \<Rightarrow> (Inr (f v), st))"

fun exec :: "env \<Rightarrow> call \<Rightarrow> store \<times> disk \<Rightarrow> (error + reply) \<times> store \<times> disk" where
  "exec ev (Add_ddl ddl) st = reply_of Ident (add_ddl ev ddl st)"
| "exec ev (Add_documentation doc) st = reply_of Ident (add_documentation ev doc st)"
| "exec ev (Add_question_sql q sq) st = reply_of Ident (add_question_sql ev q sq st)"
| "exec ev (Get_related_ddl q) st = reply_of Texts (get_related_ddl ev (fst st) q, st)"
| "exec ev (Get_related_documentation q) st =
     reply_of Texts (get_related_documentation ev (fst st) q, st)"
| "exec ev (Get_similar_question_sql q) st =
     reply_of Entries (get_similar_question_sql ev (fst st) q, st)"
| "exec ev Get_training_data st = (Inr (Entries (get_training_data (fst st))), st)"
| "exec ev (Remove_training_data ident) st =
     reply_of (\<lambda>u. Nothing) (remove_training_data ident st)"

text \<open>The state after a sequence of calls, each with its own environment.\<close>

fun run :: "(env \<times> call) list \<Rightarrow> store \<times> disk \<Rightarrow> store \<times> disk" where
  "run [] st = st"
| "run ((ev, c) # cs) st = run cs (snd (exec ev c st))"

text \<open>The text an add embeds: the DDL, the documentation, the question.\<close>

fun added_text :: "call \<Rightarrow> string option" where
  "added_text (Add_ddl ddl) = Some ddl"
| "added_text (Add_documentation doc) = Some doc"
| "added_text (Add_question_sql q sq) = Some q"
| "added_text c = None"

text \<open>The number of rows of the index, an index that is \<^verbatim>\<open>None\<close> counting as zero.\<close>

definition index_count :: "store \<Rightarrow> nat" where
  "index_count s = (case index s of None \<Rightarrow> 0 | Some ix \<Rightarrow> ntotal ix)"

definition aligned :: "store \<Rightarrow> bool" where
  "aligned s = (index_count s = length (metadata s))"

definition empty_disk :: disk where
  "empty_disk = \<lparr>index_path = Absent, metadata_path = Absent, dimension_path = Absent\<rparr>"

subsection \<open>Notions used in the statements and proofs\<close>

text \<open>
  A store is locked to width \<open>D\<close> once its index exists and its dimension is \<open>D\<close>.
\<close>

definition locked :: "int \<Rightarrow> store \<times> disk \<Rightarrow> bool" where
  "locked D st = (index (fst st) \<noteq> None \<and> dimension (fst st) = Some D)"

text \<open>
  Rank order of two hits: the nearer one first, the earlier row first at equal distance.
\<close>

definition hit_before :: "int \<times> real \<Rightarrow> int \<times> real \<Rightarrow> bool" where
  "hit_before a b = (snd a < snd b \<or> (snd a = snd b \<and> fst a < fst b))"



definition well_formed :: "entry \<Rightarrow> bool" where
  "well_formed r =
     (if has_type ''ddl'' r \<or> has_type ''documentation'' r
      then map_of r ''content'' \<noteq> None
      else if has_type ''question_sql'' r
      then map_of r ''question'' \<noteq> None \<and> map_of r ''sql'' \<noteq> None
      else True)"

text \<open>The dictionary an add passes to \<^verbatim>\<open>add_embeddings\<close>.\<close>

definition added_entry :: "env \<Rightarrow> call \<Rightarrow> entry" where
  "added_entry ev c =
     (case c of
        Add_ddl ddl \<Rightarrow> [(''id'', uuid4 ev), (''type'', ''ddl''), (''content'', ddl)]
      | Add_documentation doc \<Rightarrow>
          [(''id'', uuid4 ev), (''type'', ''documentation''), (''content'', doc)]
      | Add_question_sql q sq \<Rightarrow>
          [(''id'', uuid4 ev), (''type'', ''question_sql''), (''question'', q), (''sql'', sq)]
      | _ \<Rightarrow> [])"

text \<open>
  The store \<^verbatim>\<open>__init__\<close> builds over an empty directory, and an environment for the
  examples: the provider of the worked scenario of the specification, with vectors of
  width three for its texts, one of width two, vectors of width one for four other
  texts, three of them of magnitude \<open>10\<^sup>2\<^sup>0\<close> and more, and a failure for every other text.
  Its library is the search of the specification.
\<close>

definition fresh_store :: store where
  "fresh_store = \<lparr>dimension = None, index = None, metadata = []\<rparr>"

definition demo_provider :: "string \<Rightarrow> embedding option" where
  "demo_provider t =
     (if t = ''CREATE TABLE t(id INT)'' then Some [1, 0, 0]
      else if t = ''t stores widgets'' then Some [0, 1, 0]
      else if t = ''how many rows'' then Some [0, 0, 1]
      else if t = ''how many rows in t'' then Some [0, 0, 1]
      else if t = ''wide'' then Some [1, 2]
      else if t = ''origin'' then Some [0]
      else if t = ''east'' then Some [10 ^ 20]
      else if t = ''far east'' then Some [2 * 10 ^ 20]
      else if t = ''west'' then Some [- (10 ^ 20)]
      else None)"

definition demo_env :: "string \<Rightarrow> env" where
  "demo_env ident =
     \<lparr>embed = demo_provider, uuid4 = ident, search = faiss_search,
      w_dimension = Written, w_index = Index_written, w_metadata = Written\<rparr>"

text \<open>The same environment with a ledger write that fails after the file was opened.\<close>

definition torn_env :: "string \<Rightarrow> env" where
  "torn_env ident = (demo_env ident)\<lparr>w_metadata := Torn\<rparr>"

text \<open>Store and directory after the first add of the worked scenario.\<close>

definition one_ddl :: "store \<times> disk" where
  "one_ddl =
    (\<lparr>dimension = Some 3, index = Some \<lparr>faiss_d = 3, faiss_rows = [[1, 0, 0]]\<rparr>,
      metadata = [[(''id'', ''id-1''), (''type'', ''ddl''), (''content'', ''CREATE TABLE t(id INT)'')]]\<rparr>,
     \<lparr>index_path = Holds (Some \<lparr>faiss_d = 3, faiss_rows = [[1, 0, 0]]\<rparr>),
      metadata_path = Holds [[(''id'', ''id-1''), (''type'', ''ddl''), (''content'', ''CREATE TABLE t(id INT)'')]],
      dimension_path = Holds 3\<rparr>)"

text \<open>
  Environments whose index write is refused, whose index write fails unreported, whose
  dimension write is refused, and whose library is the search in \<^verbatim>\<open>float32\<close>.
\<close>

definition refused_env :: "string \<Rightarrow> env" where
  "refused_env ident = (demo_env ident)\<lparr>w_index := Index_refused\<rparr>"

definition unreported_env :: "string \<Rightarrow> env" where
  "unreported_env ident = (demo_env ident)\<lparr>w_index := Index_unreported\<rparr>"

definition float32_env :: "string \<Rightarrow> env" where
  "float32_env ident = (demo_env ident)\<lparr>search := faiss_search32\<rparr>"

definition refused_dimension_env :: "string \<Rightarrow> env" where
  "refused_dimension_env ident = (demo_env ident)\<lparr>w_dimension := Refused\<rparr>"

text \<open>
  The store after the three adds of the worked scenario; a store whose index has more
  rows than its ledger has records; a store of width one with ten documentation records
  near the origin and one DDL record farther away.
\<close>

definition three_store :: store where
  "three_store =
     \<lparr>dimension = Some 3,
      index = Some \<lparr>faiss_d = 3, faiss_rows = [[1, 0, 0], [0, 1, 0], [0, 0, 1]]\<rparr>,
      metadata =
        [[(''id'', ''id-1''), (''type'', ''ddl''), (''content'', ''CREATE TABLE t(id INT)'')],
         [(''id'', ''id-2''), (''type'', ''documentation''), (''content'', ''t stores widgets'')],
         [(''id'', ''id-3''), (''type'', ''question_sql''), (''question'', ''how many rows''),
          (''sql'', ''SELECT COUNT(*) FROM t'')]]\<rparr>"

definition lopsided_store :: store where
  "lopsided_store =
     \<lparr>dimension = Some 3,
      index = Some \<lparr>faiss_d = 3, faiss_rows = [[1, 0, 0], [0, 1, 0], [0, 0, 1]]\<rparr>,
      metadata =
        [[(''id'', ''id-1''), (''type'', ''ddl''), (''content'', ''CREATE TABLE t(id INT)'')]]\<rparr>"


definition widgets_entry :: entry where
  "widgets_entry =
     [(''id'', ''id-2''), (''type'', ''documentation''), (''content'', ''t stores widgets'')]"

text \<open>
  Directories: one with an index and no ledger, one whose ledger is unreadable, one
  that holds only a \<^verbatim>\<open>dimension.txt\<close> of width two, and the latter after a save of the
  store of width three.
\<close>

definition index_only_disk :: disk where
  "index_only_disk =
     \<lparr>index_path = Holds (Some \<lparr>faiss_d = 3, faiss_rows = [[1, 0, 0]]\<rparr>),
      metadata_path = Absent, dimension_path = Holds 3\<rparr>"

definition corrupt_ledger_disk :: disk where
  "corrupt_ledger_disk =
     \<lparr>index_path = Holds (Some \<lparr>faiss_d = 3, faiss_rows = [[1, 0, 0]]\<rparr>),
      metadata_path = Unreadable, dimension_path = Holds 3\<rparr>"

definition stale_disk :: disk where
  "stale_disk = \<lparr>index_path = Absent, metadata_path = Absent, dimension_path = Holds 2\<rparr>"

definition stale_saved_disk :: disk where
  "stale_saved_disk = (snd one_ddl)\<lparr>dimension_path := Holds 2\<rparr>"

text \<open>
  A store with an index that has no rows; the store two adds build from vectors of
  magnitude \<open>10\<^sup>2\<^sup>0\<close>; and a directory whose ledger file holds the empty list beside an
  index of one row, and the store \<^verbatim>\<open>__init__\<close> loads from it.
\<close>

definition empty_index_store :: store where
  "empty_index_store =
     \<lparr>dimension = Some 3, index = Some \<lparr>faiss_d = 3, faiss_rows = []\<rparr>, metadata = []\<rparr>"

definition east_store :: store where
  "east_store =
     \<lparr>dimension = Some 1,
      index = Some \<lparr>faiss_d = 1, faiss_rows = [[10 ^ 20], [2 * 10 ^ 20]]\<rparr>,
      metadata =
        [[(''id'', ''id-1''), (''type'', ''ddl''), (''content'', ''east'')],
         [(''id'', ''id-2''), (''type'', ''documentation''), (''content'', ''far east'')]]\<rparr>"

definition ledgerless_store :: store where
  "ledgerless_store =
     \<lparr>dimension = Some 1, index = Some \<lparr>faiss_d = 1, faiss_rows = [[10 ^ 20]]\<rparr>,
      metadata = []\<rparr>"

definition ledgerless_disk :: disk where
  "ledgerless_disk =
     \<lparr>index_path = Holds (Some \<lparr>faiss_d = 1, faiss_rows = [[10 ^ 20]]\<rparr>),
      metadata_path = Holds [], dimension_path = Holds 1\<rparr>"

section \<open>Evaluation\<close>

lemmas eval_defs = add_ddl_def add_documentation_def add_question_sql_def reply_of_def
  add_embeddings_def init_index_def write_file_def write_index_def save_def index_add_def Let_def
  demo_env_def demo_provider_def fresh_store_def empty_disk_def remove_training_data_def
  get_training_data_def


lemmas search32_eval = get_similar_embeddings_with_def faiss_search32_def faiss_hits32_def
  ntotal_def l2sqr_def float32_max_def py_index_def numeral_2_eq_2

lemmas env_defs = demo_env_def demo_provider_def torn_env_def refused_env_def
  unreported_env_def refused_dimension_env_def float32_env_def


section \<open>What \<^verbatim>\<open>_save\<close> and \<^verbatim>\<open>add_embeddings\<close> do, case by case\<close>

lemma save_returns:
  assumes "fst (save ev s dk) = Inr u"
  shows "(w_index ev = Index_written \<or> w_index ev = Index_unreported) \<and> w_metadata ev = Written"
  using assms
  by (cases "w_index ev"; cases "w_metadata ev")
     (simp_all add: save_def write_file_def write_index_def)

lemma save_written:
  assumes "w_index ev = Index_written" and "w_metadata ev = Written"
  shows "save ev s dk =
     (Inr (), dk\<lparr>index_path := Holds (index s), metadata_path := Holds (metadata s)\<rparr>)"
  using assms by (simp add: save_def write_file_def write_index_def)

lemma save_unreported:
  assumes "w_index ev = Index_unreported" and "w_metadata ev = Written"
  shows "save ev s dk =
     (Inr (), dk\<lparr>index_path := Unreadable, metadata_path := Holds (metadata s)\<rparr>)"
  using assms by (simp add: save_def write_file_def write_index_def)

lemma save_raises:
  assumes "w_index ev = Index_refused \<or> w_index ev = Index_torn \<or> w_metadata ev \<noteq> Written"
  shows "fst (save ev s dk) = Inl StorageError"
    and "metadata_path (snd (save ev s dk)) = metadata_path dk \<or>
         metadata_path (snd (save ev s dk)) = Unreadable"
  using assms
  by (cases "w_index ev"; cases "w_metadata ev";
      simp add: save_def write_file_def write_index_def)+

lemma save_dimension_path: "dimension_path (snd (save ev s dk)) = dimension_path dk"
  by (cases "w_index ev"; cases "w_metadata ev")
     (simp_all add: save_def write_file_def write_index_def)

lemma add_embeddings_fresh:
  assumes "index s = None"
  shows "add_embeddings ev e md (s, dk) =
     (case w_dimension ev of
        Written \<Rightarrow>
          (let s2 = s\<lparr>dimension := Some (int (length e)),
                       index := Some \<lparr>faiss_d = int (length e), faiss_rows = [e]\<rparr>,
                       metadata := metadata s @ [md]\<rparr>;
               dk1 = dk\<lparr>dimension_path := Holds (int (length e))\<rparr>
           in (fst (save ev s2 dk1), s2, snd (save ev s2 dk1)))
      | Refused \<Rightarrow>
          (Inl StorageError,
           s\<lparr>dimension := Some (int (length e)),
              index := Some \<lparr>faiss_d = int (length e), faiss_rows = []\<rparr>\<rparr>, dk)
      | Torn \<Rightarrow>
          (Inl StorageError,
           s\<lparr>dimension := Some (int (length e)),
              index := Some \<lparr>faiss_d = int (length e), faiss_rows = []\<rparr>\<rparr>,
           dk\<lparr>dimension_path := Unreadable\<rparr>))"
  using assms
  by (cases "w_dimension ev")
     (simp_all add: add_embeddings_def init_index_def write_file_def index_add_def Let_def
        split: prod.split)

lemma add_embeddings_initialised:
  assumes "index s = Some ix"
  shows "add_embeddings ev e md (s, dk) =
     (if Some (int (length e)) \<noteq> dimension s then (Inl DimensionMismatch, s, dk)
      else if int (length e) \<noteq> faiss_d ix then (Inl FaissAssertion, s, dk)
      else
        (let s2 = s\<lparr>index := Some (ix\<lparr>faiss_rows := faiss_rows ix @ [e]\<rparr>),
                     metadata := metadata s @ [md]\<rparr>
         in (fst (save ev s2 dk), s2, snd (save ev s2 dk))))"
  using assms
  by (simp add: add_embeddings_def index_add_def Let_def split: prod.split)


lemma add_embeddings_aligned:
  assumes "aligned s"
  shows "aligned (fst (snd (add_embeddings ev e md (s, dk))))"
proof (cases "index s")
  case None
  then show ?thesis using assms
    by (cases "w_dimension ev")
       (simp_all add: add_embeddings_fresh aligned_def index_count_def ntotal_def Let_def)
next
  case (Some ix)
  then show ?thesis using assms
    by (simp add: add_embeddings_initialised aligned_def index_count_def ntotal_def Let_def)
qed

lemma add_embeddings_success:
  assumes "add_embeddings ev e md (s, dk) = (Inr u, st1)"
  shows "locked (int (length e)) st1"
proof (cases "index s")
  case None
  then show ?thesis using assms
    by (cases "w_dimension ev")
       (auto simp: add_embeddings_fresh locked_def Let_def)
next
  case (Some ix)
  then show ?thesis using assms
    by (auto simp: add_embeddings_initialised locked_def Let_def split: if_splits)
qed

lemma add_embeddings_locked:
  assumes "locked D (s, dk)"
  shows "locked D (snd (add_embeddings ev e md (s, dk)))"
proof -
  from assms obtain ix where "index s = Some ix" by (auto simp: locked_def)
  then show ?thesis using assms
    by (simp add: add_embeddings_initialised locked_def Let_def)
qed

lemma add_embeddings_mismatch:
  assumes "locked D (s, dk)" and "int (length e) \<noteq> D"
  shows "add_embeddings ev e md (s, dk) = (Inl DimensionMismatch, s, dk)"
proof -
  from assms obtain ix where "index s = Some ix" by (auto simp: locked_def)
  then show ?thesis using assms
    by (simp add: add_embeddings_initialised locked_def)
qed


section \<open>The public calls\<close>

lemma exec_add:
  assumes "added_text c = Some t"
  shows "exec ev c st =
     (case embed ev t of
        None \<Rightarrow> (Inl ProviderError, st)
      | Some e \<Rightarrow>
          (case add_embeddings ev e (added_entry ev c) st of
             (Inl err, st') \<Rightarrow> (Inl err, st')
           | (Inr u, st') \<Rightarrow> (Inr (Ident (uuid4 ev)), st')))"
  using assms
  by (cases c)
     (simp_all add: add_ddl_def add_documentation_def add_question_sql_def reply_of_def
        added_entry_def split: option.split prod.split sum.split)

lemma exec_other:
  assumes "added_text c = None"
  shows "snd (exec ev c st) = st"
  using assms
  by (cases c) (auto simp: reply_of_def remove_training_data_def split: sum.split)

lemma exec_state:
  "snd (exec ev c st) = st \<or> (\<exists>e md. snd (exec ev c st) = snd (add_embeddings ev e md st))"
proof (cases "added_text c")
  case None
  then show ?thesis by (simp add: exec_other)
next
  case (Some t)
  note eq = exec_add[OF this, of ev st]
  show ?thesis
  proof (cases "embed ev t")
    case None
    then show ?thesis using eq by simp
  next
    case (Some e)
    then have "snd (exec ev c st) = snd (add_embeddings ev e (added_entry ev c) st)"
      using eq by (simp split: prod.split sum.split)
    then show ?thesis by blast
  qed
qed

lemma exec_aligned:
  assumes "aligned (fst st)"
  shows "aligned (fst (snd (exec ev c st)))"
proof -
  obtain s dk where st: "st = (s, dk)" by (cases st)
  from exec_state[of ev c st] show ?thesis
    using assms add_embeddings_aligned[of s ev _ _ dk] by (auto simp: st)
qed

lemma exec_locked:
  assumes "locked D st"
  shows "locked D (snd (exec ev c st))"
proof -
  obtain s dk where st: "st = (s, dk)" by (cases st)
  from exec_state[of ev c st] show ?thesis
    using assms add_embeddings_locked[of D s dk ev] by (auto simp: st)
qed

lemma run_locked: "locked D st \<Longrightarrow> locked D (run calls st)"
proof (induction calls arbitrary: st)
  case Nil
  then show ?case by simp
next
  case (Cons a calls)
  obtain ev c where a: "a = (ev, c)" by (cases a)
  have "locked D (snd (exec ev c st))" using Cons.prems by (rule exec_locked)
  then show ?case using Cons.IH by (simp add: a)
qed

lemma exec_add_success:
  assumes "added_text c = Some t" and "embed ev t = Some e" and "exec ev c st = (Inr r, st1)"
  shows "locked (int (length e)) st1"
proof -
  obtain s dk where st: "st = (s, dk)" by (cases st)
  have "add_embeddings ev e (added_entry ev c) (s, dk) = (Inr (), st1)"
    using exec_add[OF assms(1), of ev st] assms(2,3)
    by (cases "add_embeddings ev e (added_entry ev c) (s, dk)")
       (auto simp: st split: sum.splits)
  then show ?thesis by (rule add_embeddings_success)
qed

lemma exec_add_mismatch:
  assumes "added_text c = Some t" and "embed ev t = Some e" and "locked D st"
    and "int (length e) \<noteq> D"
  shows "exec ev c st = (Inl DimensionMismatch, st)"
proof -
  obtain s dk where st: "st = (s, dk)" by (cases st)
  note eq = exec_add[OF assms(1), of ev st]
  have "add_embeddings ev e (added_entry ev c) st = (Inl DimensionMismatch, st)"
    using add_embeddings_mismatch[of D s dk e ev] assms(3,4) by (simp add: st)
  then show ?thesis using eq assms(2) by simp
qed

lemma run_aligned: "aligned (fst st) \<Longrightarrow> aligned (fst (run calls st))"
proof (induction calls arbitrary: st)
  case Nil
  then show ?case by simp
next
  case (Cons a calls)
  obtain ev c where a: "a = (ev, c)" by (cases a)
  have "aligned (fst (snd (exec ev c st)))" using Cons.prems by (rule exec_aligned)
  then show ?case using Cons.IH by (simp add: a)
qed

section \<open>Saving and loading\<close>

lemma save_load:
  assumes "save ev s dk = (Inr u, dk')" and "w_index ev \<noteq> Index_unreported"
  shows "init_store cfg dk' =
     (case dimension_path dk of
        Absent \<Rightarrow>
          (case index s of
             None \<Rightarrow> Inl AttributeError
           | Some ix \<Rightarrow> Inr (s\<lparr>dimension := Some (faiss_d ix)\<rparr>))
      | Unreadable \<Rightarrow> Inl StorageError
      | Holds n \<Rightarrow> Inr (s\<lparr>dimension := Some n\<rparr>))"
proof -
  have w: "w_index ev = Index_written" "w_metadata ev = Written"
    using save_returns[of ev s dk u] assms by auto
  have dk': "dk' = dk\<lparr>index_path := Holds (index s), metadata_path := Holds (metadata s)\<rparr>"
    using assms(1) by (simp add: save_written[OF w])
  show ?thesis
    by (cases "dimension_path dk"; cases "index s")
       (simp_all add: dk' init_store_def path_exists_def)
qed

lemma save_load_unreported:
  assumes "save ev s dk = (Inr u, dk')" and "w_index ev = Index_unreported"
  shows "init_store cfg dk' = Inl StorageError"
proof -
  have w: "w_metadata ev = Written"
    using save_returns[of ev s dk u] assms by auto
  have dk': "dk' = dk\<lparr>index_path := Unreadable, metadata_path := Holds (metadata s)\<rparr>"
    using assms(1) by (simp add: save_unreported[OF assms(2) w])
  show ?thesis by (simp add: dk' init_store_def path_exists_def)
qed

lemma add_embeddings_durable:
  assumes "init_store cfg dk = Inr s" and "add_embeddings ev e md (s, dk) = (Inr u, s', dk')"
    and "w_index ev \<noteq> Index_unreported"
  shows "init_store cfg dk' = Inr s'"
proof (cases "index s")
  case None
  have w: "w_dimension ev = Written" using assms(2) None
    by (cases "w_dimension ev") (simp_all add: add_embeddings_fresh)
  let ?s2 = "s\<lparr>dimension := Some (int (length e)),
               index := Some \<lparr>faiss_d = int (length e), faiss_rows = [e]\<rparr>,
               metadata := metadata s @ [md]\<rparr>"
  let ?dk1 = "dk\<lparr>dimension_path := Holds (int (length e))\<rparr>"
  from assms(2) None w have s': "s' = ?s2" and sv: "save ev ?s2 ?dk1 = (Inr u, dk')"
    by (auto simp: add_embeddings_fresh Let_def prod_eq_iff)
  from save_load[OF sv assms(3), of cfg] show ?thesis by (simp add: s')
next
  case (Some ix)
  let ?s2 = "s\<lparr>index := Some (ix\<lparr>faiss_rows := faiss_rows ix @ [e]\<rparr>),
               metadata := metadata s @ [md]\<rparr>"
  from assms(2) Some have s': "s' = ?s2" and sv: "save ev ?s2 dk = (Inr u, dk')"
    by (auto simp: add_embeddings_initialised Let_def prod_eq_iff split: if_splits)
  from assms(1) Some have
    "(\<exists>n. dimension_path dk = Holds n \<and> dimension s = Some n) \<or>
     (dimension_path dk = Absent \<and> dimension s = Some (faiss_d ix))"
    by (auto simp: init_store_def split: if_splits artifact.splits option.splits)
  then show ?thesis
  proof
    assume "\<exists>n. dimension_path dk = Holds n \<and> dimension s = Some n"
    then obtain n where "dimension_path dk = Holds n" and "dimension s = Some n" by auto
    with save_load[OF sv assms(3), of cfg] show ?thesis by (simp add: s')
  next
    assume "dimension_path dk = Absent \<and> dimension s = Some (faiss_d ix)"
    with save_load[OF sv assms(3), of cfg] show ?thesis by (simp add: s')
  qed
qed

lemma add_embeddings_result:
  assumes "add_embeddings ev e (added_entry ev c) st = (x, st1)" and "added_text c = Some t"
    and "embed ev t = Some e"
  shows "exec ev c st = (case x of Inl err \<Rightarrow> Inl err | Inr u \<Rightarrow> Inr (Ident (uuid4 ev)), st1)"
  using exec_add[OF assms(2), of ev st] assms(1,3) by (simp split: sum.split)

lemma exec_durable:
  assumes "init_store cfg (snd st) = Inr (fst st)" and "exec ev c st = (Inr r, st')"
    and "w_index ev \<noteq> Index_unreported"
  shows "init_store cfg (snd st') = Inr (fst st')"
proof (cases "added_text c")
  case None
  from exec_other[OF this, of ev st] assms show ?thesis by simp
next
  case (Some t)
  note eq = exec_add[OF Some, of ev st]
  show ?thesis
  proof (cases "embed ev t")
    case None
    with eq assms(2) show ?thesis by simp
  next
    case e: (Some e)
    obtain x s' dk' where res: "add_embeddings ev e (added_entry ev c) st = (x, s', dk')"
      by (cases "add_embeddings ev e (added_entry ev c) st") auto
    show ?thesis
    proof (cases x)
      case (Inl err)
      with eq e res assms(2) show ?thesis by simp
    next
      case (Inr u)
      with eq e res assms(2) have st': "st' = (s', dk')" by simp
      have "add_embeddings ev e (added_entry ev c) (fst st, snd st) = (Inr u, s', dk')"
        using res Inr by simp
      with assms(1) have "init_store cfg dk' = Inr s'"
        using assms(3) by (rule add_embeddings_durable)
      then show ?thesis by (simp add: st')
    qed
  qed
qed

section \<open>The search\<close>

lemma set_insert_hit: "set (insert_hit h xs) = insert h (set xs)"
  by (induction xs) auto

lemma length_insert_hit: "length (insert_hit h xs) = Suc (length xs)"
  by (induction xs) auto

lemma sorted_insert_hit:
  assumes "sorted_wrt hit_before xs" and "\<forall>x\<in>set xs. fst x < fst h"
  shows "sorted_wrt hit_before (insert_hit h xs)"
  using assms
proof (induction xs)
  case Nil
  then show ?case by simp
next
  case (Cons x xs)
  show ?case
  proof (cases "snd h < snd x")
    case True
    have "\<forall>y\<in>set xs. hit_before h y"
    proof
      fix y assume "y \<in> set xs"
      with Cons.prems(1) have "hit_before x y" by simp
      with True show "hit_before h y" by (auto simp: hit_before_def)
    qed
    with True Cons.prems(1) show ?thesis by (simp add: hit_before_def)
  next
    case False
    have "hit_before x h" using False Cons.prems(2) by (auto simp: hit_before_def)
    moreover have "sorted_wrt hit_before (insert_hit h xs)"
      using Cons.IH Cons.prems by simp
    ultimately show ?thesis using False Cons.prems(1) by (simp add: set_insert_hit)
  qed
qed

lemma distinct_insert_hit:
  assumes "distinct (map fst xs)" and "fst h \<notin> fst ` set xs"
  shows "distinct (map fst (insert_hit h xs))"
  using assms by (induction xs) (auto simp: set_insert_hit)

lemma length_scan: "length (scan q i vs acc) = length acc + length vs"
  by (induction vs arbitrary: i acc) (simp_all add: length_insert_hit)

lemma set_scan:
  "set (scan q i vs acc) =
     set acc \<union> (\<lambda>j. (i + int j, l2sqr q (vs ! j))) ` {..<length vs}"
proof (induction vs arbitrary: i acc)
  case Nil
  then show ?case by simp
next
  case (Cons v vs)
  have "(\<lambda>j. (i + int j, l2sqr q ((v # vs) ! j))) ` {..<Suc (length vs)} =
        insert (i, l2sqr q v) ((\<lambda>j. (i + 1 + int j, l2sqr q (vs ! j))) ` {..<length vs})"
    by (simp add: lessThan_Suc_eq_insert_0 image_image add.assoc)
  then show ?case by (simp add: Cons.IH set_insert_hit)
qed

lemma sorted_scan:
  assumes "sorted_wrt hit_before acc" and "\<forall>x\<in>set acc. fst x < i"
  shows "sorted_wrt hit_before (scan q i vs acc)"
  using assms
proof (induction vs arbitrary: i acc)
  case Nil
  then show ?case by simp
next
  case (Cons v vs)
  have "sorted_wrt hit_before (insert_hit (i, l2sqr q v) acc)"
    using Cons.prems by (intro sorted_insert_hit) simp_all
  moreover have "\<forall>x\<in>set (insert_hit (i, l2sqr q v) acc). fst x < i + 1"
    using Cons.prems(2) by (auto simp: set_insert_hit)
  ultimately show ?case using Cons.IH by simp
qed

lemma distinct_scan:
  assumes "distinct (map fst acc)" and "\<forall>x\<in>set acc. fst x < i"
  shows "distinct (map fst (scan q i vs acc))"
  using assms
proof (induction vs arbitrary: i acc)
  case Nil
  then show ?case by simp
next
  case (Cons v vs)
  have "distinct (map fst (insert_hit (i, l2sqr q v) acc))"
    using Cons.prems by (intro distinct_insert_hit) auto
  moreover have "\<forall>x\<in>set (insert_hit (i, l2sqr q v) acc). fst x < i + 1"
    using Cons.prems(2) by (auto simp: set_insert_hit)
  ultimately show ?case using Cons.IH by simp
qed

lemma length_faiss_hits: "length (faiss_hits ix q k) = min k (ntotal ix)"
  by (simp add: faiss_hits_def length_scan ntotal_def min.commute)

lemma sorted_faiss_hits: "sorted_wrt hit_before (faiss_hits ix q k)"
  unfolding faiss_hits_def by (rule sorted_wrt_take) (simp add: sorted_scan)

lemma distinct_faiss_hits: "distinct (map fst (faiss_hits ix q k))"
  unfolding faiss_hits_def take_map[symmetric] by (rule distinct_take) (simp add: distinct_scan)

lemma faiss_hits_member:
  assumes "h \<in> set (faiss_hits ix q k)"
  shows "\<exists>j<ntotal ix. h = (int j, l2sqr q (faiss_rows ix ! j))"
proof -
  from assms have "h \<in> set (scan q 0 (faiss_rows ix) [])"
    unfolding faiss_hits_def by (rule in_set_takeD)
  then show ?thesis by (auto simp: set_scan ntotal_def)
qed

lemma faiss_hits_nearest:
  assumes "j < ntotal ix" and "int j \<notin> fst ` set (faiss_hits ix q k)"
    and "h \<in> set (faiss_hits ix q k)"
  shows "hit_before h (int j, l2sqr q (faiss_rows ix ! j))"
proof -
  let ?all = "scan q 0 (faiss_rows ix) []"
  let ?g = "(int j, l2sqr q (faiss_rows ix ! j))"
  have "?g \<in> set ?all" using assms(1) by (auto simp: set_scan ntotal_def)
  then have "?g \<in> set (take k ?all) \<union> set (drop k ?all)"
    by (simp only: set_append[symmetric] append_take_drop_id)
  moreover have "?g \<notin> set (take k ?all)"
    using assms(2) by (force simp: faiss_hits_def)
  ultimately have g: "?g \<in> set (drop k ?all)" by simp
  have "sorted_wrt hit_before (take k ?all @ drop k ?all)"
    by (simp add: sorted_scan)
  then have "\<forall>x\<in>set (take k ?all). \<forall>y\<in>set (drop k ?all). hit_before x y"
    by (simp only: sorted_wrt_append) simp
  with g assms(3) show ?thesis by (simp add: faiss_hits_def)
qed


lemma collect_nonneg:
  assumes "\<forall>i\<in>set ls. 0 \<le> i"
  shows "collect md ls =
     Inr (map (\<lambda>i. md ! nat i) (filter (\<lambda>i. i < int (length md)) ls))"
  using assms by (induction ls) (simp_all add: py_index_def)


lemma faiss_hits_nonneg: "\<forall>i\<in>set (map fst (faiss_hits ix q k)). 0 \<le> i"
  using faiss_hits_member[of _ ix q k] by fastforce

lemma faiss_search_labels:
  assumes "int (length q) = faiss_d ix" and "k \<le> ntotal ix"
  shows "faiss_search ix q k = Inr (map fst (faiss_hits ix q k))"
  using assms by (simp add: faiss_search_def length_faiss_hits)

lemma length_faiss_search:
  "faiss_search ix q k = Inr ls \<Longrightarrow> length ls = k"
  by (auto simp: faiss_search_def length_faiss_hits split: if_splits)

lemma get_similar_embeddings_with_empty:
  assumes "index_count s = 0"
  shows "get_similar_embeddings_with lib s q n = Inr []"
  using assms
  by (simp add: get_similar_embeddings_with_def index_count_def split: option.splits)

lemma get_similar_embeddings_with_labels:
  assumes "index s = Some ix" and "ntotal ix \<noteq> 0"
    and "lib ix q (min n (ntotal ix)) = Inr labels" and "\<forall>i\<in>set labels. 0 \<le> i"
  shows "get_similar_embeddings_with lib s q n =
     Inr (map (\<lambda>i. metadata s ! nat i)
            (filter (\<lambda>i. i < int (length (metadata s))) labels))"
  using assms(1-3) by (simp add: get_similar_embeddings_with_def collect_nonneg[OF assms(4)])

lemma get_similar_embeddings_eq:
  assumes "index s = Some ix" and "int (length q) = faiss_d ix"
  shows "get_similar_embeddings s q n =
     Inr (map (\<lambda>i. metadata s ! nat i)
            (filter (\<lambda>i. i < int (length (metadata s)))
               (map fst (faiss_hits ix q (min n (ntotal ix))))))"
proof (cases "ntotal ix = 0")
  case True
  then have "faiss_hits ix q (min n (ntotal ix)) = []" by (simp add: faiss_hits_def)
  with True assms show ?thesis
    by (simp add: get_similar_embeddings_def get_similar_embeddings_with_def)
next
  case False
  have "faiss_search ix q (min n (ntotal ix)) = Inr (map fst (faiss_hits ix q (min n (ntotal ix))))"
    using assms(2) by (rule faiss_search_labels) simp
  moreover have "\<forall>i\<in>set (map fst (faiss_hits ix q (min n (ntotal ix)))). 0 \<le> i"
    by (rule faiss_hits_nonneg)
  ultimately show ?thesis
    using get_similar_embeddings_with_labels[OF assms(1) False]
    by (simp add: get_similar_embeddings_def)
qed

section \<open>Payloads of the retrieval calls\<close>



lemma well_formed_added_entry:
  assumes "added_text c = Some t"
  shows "well_formed (added_entry ev c)"
  using assms by (cases c) (simp_all add: well_formed_def added_entry_def has_type_def)

lemma add_embeddings_metadata:
  "metadata (fst (snd (add_embeddings ev e md (s, dk)))) = metadata s \<or>
   metadata (fst (snd (add_embeddings ev e md (s, dk)))) = metadata s @ [md]"
proof (cases "index s")
  case None
  then show ?thesis
    by (cases "w_dimension ev") (simp_all add: add_embeddings_fresh Let_def)
next
  case (Some ix)
  then show ?thesis by (simp add: add_embeddings_initialised Let_def)
qed

lemma exec_well_formed:
  assumes "\<forall>r\<in>set (metadata (fst st)). well_formed r"
  shows "\<forall>r\<in>set (metadata (fst (snd (exec ev c st)))). well_formed r"
proof (cases "added_text c")
  case None
  with assms show ?thesis by (simp add: exec_other)
next
  case (Some t)
  obtain s dk where st: "st = (s, dk)" by (cases st)
  show ?thesis
  proof (cases "embed ev t")
    case None
    with exec_add[OF Some, of ev st] assms show ?thesis by simp
  next
    case e: (Some e)
    have "snd (exec ev c st) = snd (add_embeddings ev e (added_entry ev c) st)"
      using exec_add[OF Some, of ev st] e by (simp split: prod.split sum.split)
    then show ?thesis
      using add_embeddings_metadata[of ev e "added_entry ev c" s dk] assms
        well_formed_added_entry[OF Some, of ev]
      by (auto simp: st)
  qed
qed

lemma run_well_formed:
  "\<forall>r\<in>set (metadata (fst st)). well_formed r \<Longrightarrow>
   \<forall>r\<in>set (metadata (fst (run calls st))). well_formed r"
proof (induction calls arbitrary: st)
  case Nil
  then show ?case by simp
next
  case (Cons a calls)
  obtain ev c where a: "a = (ev, c)" by (cases a)
  from exec_well_formed[OF Cons.prems, of ev c] Cons.IH show ?case by (simp add: a)
qed






section \<open>Alignment of index and ledger\<close>

text \<open>
  Claim C1. Over every sequence of public calls, whatever the provider returns and
  whichever writes fail, a store whose index holds as many rows as its ledger holds
  records (an index that is \<^verbatim>\<open>None\<close> counting as zero) is such a store after the
  sequence, and the store that \<^verbatim>\<open>__init__\<close> builds when it finds no snapshot is one. The
  statement is about every sequence, hence about each of its prefixes, and about calls
  that raise as well as calls that return.
\<close>

theorem alignment_invariant:
  "(aligned (fst st) \<longrightarrow> aligned (fst (run calls st))) \<and>
   aligned (fst (run calls (\<lparr>dimension = cfg, index = None, metadata = []\<rparr>, dk)))"
proof -
  have "aligned (fst (\<lparr>dimension = cfg, index = None, metadata = []\<rparr>, dk))"
    by (simp add: aligned_def index_count_def)
  then show ?thesis using run_aligned by blast
qed

text \<open>
  An instance: the store after one add, then an add whose ledger write fails, an add
  of another width, a removal and a query.
\<close>

theorem alignment_invariant_witness:
  "aligned (fst one_ddl) \<and>
   aligned (fst (run [(torn_env ''id-2'', Add_documentation ''t stores widgets''),
                      (demo_env ''id-3'', Add_ddl ''wide''),
                      (demo_env ''id-4'', Remove_training_data ''id-1''),
                      (demo_env ''id-5'', Get_related_ddl ''how many rows'')]
                 one_ddl))"
proof -
  have h: "aligned (fst one_ddl)"
    by (simp add: aligned_def index_count_def ntotal_def one_ddl_def)
  from alignment_invariant[of one_ddl] h
  have "aligned (fst (run [(torn_env ''id-2'', Add_documentation ''t stores widgets''),
                      (demo_env ''id-3'', Add_ddl ''wide''),
                      (demo_env ''id-4'', Remove_training_data ''id-1''),
                      (demo_env ''id-5'', Get_related_ddl ''how many rows'')]
                 one_ddl))"
    by blast
  with h show ?thesis by blast
qed

section \<open>Removal\<close>

text \<open>
  Claim C2, as the source has it. \<^verbatim>\<open>remove_training_data\<close> returns \<^verbatim>\<open>None\<close> for every
  identifier and every store, raises nothing, and leaves store and directory as they
  were; \<^verbatim>\<open>get_training_data\<close> returns afterwards what it returned before.
\<close>

theorem remove_is_silent_no_op:
  "exec ev (Remove_training_data ident) st = (Inr Nothing, st) \<and>
   remove_training_data ident st = (Inr (), st) \<and>
   get_training_data (fst (snd (remove_training_data ident st))) = get_training_data (fst st)"
  by (simp add: remove_training_data_def reply_of_def)

text \<open>
  The claim as written fails: the record \<^verbatim>\<open>id-1\<close> is in the store, the call returns
  without \<open>UnsupportedOperation\<close>, and the record is still there.
\<close>

theorem remove_counterexample:
  "fst (remove_training_data ''id-1'' one_ddl) = Inr () \<and>
   fst (remove_training_data ''id-1'' one_ddl) \<noteq> Inl UnsupportedOperation \<and>
   snd (remove_training_data ''id-1'' one_ddl) = one_ddl \<and>
   get_training_data (fst (snd (remove_training_data ''id-1'' one_ddl))) =
     [[(''id'', ''id-1''), (''type'', ''ddl''), (''content'', ''CREATE TABLE t(id INT)'')]]"
  by (simp add: remove_training_data_def get_training_data_def one_ddl_def)

section \<open>A save that fails\<close>

text \<open>
  Claim C3, as the source has it. No add rolls anything back. Take an add that reaches
  the save: on a store without index \<^verbatim>\<open>dimension.txt\<close> was written, on an existing index
  the embedding has the width of the store and of the index. If a write of \<^verbatim>\<open>_save\<close>
  raises, the add raises the storage error, the store in memory keeps the appended row
  and the appended record, so \<^verbatim>\<open>get_training_data\<close> shows the new record, the ledger file
  is as it was or unreadable, and unless the ledger file held the new ledger before,
  \<^verbatim>\<open>__init__\<close> over the directory does not give the store in memory. If the index write
  fails without raising and the ledger write succeeds, the add returns its identifier,
  memory keeps the appends, and \<^verbatim>\<open>__init__\<close> over the directory raises.
\<close>

theorem failed_save_keeps_appends:
  assumes "added_text c = Some t" and "embed ev t = Some e"
    and "(index (fst st) = None \<and> w_dimension ev = Written \<and>
          ix = \<lparr>faiss_d = int (length e), faiss_rows = []\<rparr>) \<or>
         (index (fst st) = Some ix \<and> dimension (fst st) = Some (int (length e)) \<and>
          faiss_d ix = int (length e))"
    and "s' = (fst st)\<lparr>dimension := Some (int (length e)),
                        index := Some (ix\<lparr>faiss_rows := faiss_rows ix @ [e]\<rparr>),
                        metadata := metadata (fst st) @ [added_entry ev c]\<rparr>"
  shows "(w_index ev = Index_refused \<or> w_index ev = Index_torn \<or> w_metadata ev \<noteq> Written \<longrightarrow>
            fst (exec ev c st) = Inl StorageError \<and>
            fst (snd (exec ev c st)) = s' \<and>
            get_training_data s' = get_training_data (fst st) @ [added_entry ev c] \<and>
            (metadata_path (snd (snd (exec ev c st))) = metadata_path (snd st) \<or>
             metadata_path (snd (snd (exec ev c st))) = Unreadable) \<and>
            (metadata_path (snd st) \<noteq> Holds (metadata s') \<longrightarrow>
               init_store cfg (snd (snd (exec ev c st))) \<noteq> Inr s')) \<and>
         (w_index ev = Index_unreported \<and> w_metadata ev = Written \<longrightarrow>
            fst (exec ev c st) = Inr (Ident (uuid4 ev)) \<and>
            fst (snd (exec ev c st)) = s' \<and>
            init_store cfg (snd (snd (exec ev c st))) = Inl StorageError)"
proof -
  obtain s dk where st: "st = (s, dk)" by (cases st)
  define dk1 where "dk1 = (if index s = None then dk\<lparr>dimension_path := Holds (int (length e))\<rparr> else dk)"
  have ix': "index s' = Some (ix\<lparr>faiss_rows := faiss_rows ix @ [e]\<rparr>)"
    and md': "metadata s' = metadata s @ [added_entry ev c]"
    by (simp_all add: assms(4) st)
  have add: "add_embeddings ev e (added_entry ev c) st = (fst (save ev s' dk1), s', snd (save ev s' dk1))"
    using assms(3)
  proof
    assume h: "index (fst st) = None \<and> w_dimension ev = Written \<and>
          ix = \<lparr>faiss_d = int (length e), faiss_rows = []\<rparr>"
    then have none: "index s = None" by (simp add: st)
    show ?thesis using h
      by (simp add: st add_embeddings_fresh[OF none] Let_def assms(4) dk1_def)
  next
    assume h: "index (fst st) = Some ix \<and> dimension (fst st) = Some (int (length e)) \<and>
          faiss_d ix = int (length e)"
    then have some: "index s = Some ix" by (simp add: st)
    have "s\<lparr>dimension := Some (int (length e))\<rparr> = s" using h by (simp add: st)
    then have "s' = s\<lparr>index := Some (ix\<lparr>faiss_rows := faiss_rows ix @ [e]\<rparr>),
                       metadata := metadata s @ [added_entry ev c]\<rparr>"
      by (simp add: assms(4) st)
    then show ?thesis using h
      by (simp add: st add_embeddings_initialised[OF some] Let_def dk1_def some)
  qed
  have ex: "exec ev c st =
     (case fst (save ev s' dk1) of Inl err \<Rightarrow> Inl err | Inr u \<Rightarrow> Inr (Ident (uuid4 ev)),
      s', snd (save ev s' dk1))"
    using add_embeddings_result[OF add assms(1,2)] .
  have mp: "metadata_path dk1 = metadata_path dk" by (simp add: dk1_def)
  show ?thesis
  proof (intro conjI impI)
    assume f: "w_index ev = Index_refused \<or> w_index ev = Index_torn \<or> w_metadata ev \<noteq> Written"
    note r = save_raises[OF f, of s' dk1]
    show 1: "fst (exec ev c st) = Inl StorageError" using ex r(1) by simp
    show 2: "fst (snd (exec ev c st)) = s'" using ex by simp
    show "get_training_data s' = get_training_data (fst st) @ [added_entry ev c]"
      by (simp add: get_training_data_def md' st)
    show 3: "metadata_path (snd (snd (exec ev c st))) = metadata_path (snd st) \<or>
             metadata_path (snd (snd (exec ev c st))) = Unreadable"
      using ex r(2) by (simp add: mp st)
    assume n: "metadata_path (snd st) \<noteq> Holds (metadata s')"
    show "init_store cfg (snd (snd (exec ev c st))) \<noteq> Inr s'"
    proof
      assume l: "init_store cfg (snd (snd (exec ev c st))) = Inr s'"
      then have "metadata_path (snd (snd (exec ev c st))) = Holds (metadata s')"
        using ix'
        by (auto simp: init_store_def split: if_splits artifact.splits option.splits)
      with 3 n show False by auto
    qed
  next
    assume f: "w_index ev = Index_unreported \<and> w_metadata ev = Written"
    then have sv: "save ev s' dk1 =
        (Inr (), dk1\<lparr>index_path := Unreadable, metadata_path := Holds (metadata s')\<rparr>)"
      by (simp add: save_unreported)
    show "fst (exec ev c st) = Inr (Ident (uuid4 ev))" using ex sv by simp
    show "fst (snd (exec ev c st)) = s'" using ex by simp
    show "init_store cfg (snd (snd (exec ev c st))) = Inl StorageError"
      using ex sv by (simp add: init_store_def path_exists_def)
  qed
qed

text \<open>
  Instances: the documentation of the worked scenario is added while the ledger write
  fails, and its DDL is added to the empty store while the index write fails
  unreported.
\<close>

theorem failed_save_keeps_appends_witness:
  "fst (exec (torn_env ''id-2'') (Add_documentation ''t stores widgets'') one_ddl) =
     Inl StorageError \<and>
   get_training_data
     (fst (snd (exec (torn_env ''id-2'') (Add_documentation ''t stores widgets'') one_ddl))) =
     get_training_data (fst one_ddl) @ [widgets_entry] \<and>
   init_store None
     (snd (snd (exec (torn_env ''id-2'') (Add_documentation ''t stores widgets'') one_ddl))) \<noteq>
     Inr (fst (snd (exec (torn_env ''id-2'') (Add_documentation ''t stores widgets'') one_ddl))) \<and>
   fst (exec (unreported_env ''id-1'') (Add_ddl ''CREATE TABLE t(id INT)'')
          (fresh_store, empty_disk)) = Inr (Ident ''id-1'') \<and>
   fst (snd (exec (unreported_env ''id-1'') (Add_ddl ''CREATE TABLE t(id INT)'')
               (fresh_store, empty_disk))) = fst one_ddl \<and>
   init_store None
     (snd (snd (exec (unreported_env ''id-1'') (Add_ddl ''CREATE TABLE t(id INT)'')
                 (fresh_store, empty_disk)))) = Inl StorageError"
proof -
  let ?ix = "\<lparr>faiss_d = 3, faiss_rows = [[1, 0, 0]]\<rparr>"
  let ?c = "Add_documentation ''t stores widgets''"
  let ?s' = "(fst one_ddl)\<lparr>dimension := Some (int (length [0, 1, 0 :: real])),
               index := Some (?ix\<lparr>faiss_rows := faiss_rows ?ix @ [[0, 1, 0]]\<rparr>),
               metadata := metadata (fst one_ddl) @ [added_entry (torn_env ''id-2'') ?c]\<rparr>"
  have a: "added_text ?c = Some ''t stores widgets''" by simp
  have b: "embed (torn_env ''id-2'') ''t stores widgets'' = Some [0, 1, 0]"
    by (simp add: env_defs)
  have c: "(index (fst one_ddl) = None \<and> w_dimension (torn_env ''id-2'') = Written \<and>
          ?ix = \<lparr>faiss_d = int (length [0, 1, 0 :: real]), faiss_rows = []\<rparr>) \<or>
         (index (fst one_ddl) = Some ?ix \<and>
          dimension (fst one_ddl) = Some (int (length [0, 1, 0 :: real])) \<and>
          faiss_d ?ix = int (length [0, 1, 0 :: real]))"
    by (simp add: one_ddl_def)
  have f: "w_index (torn_env ''id-2'') = Index_refused \<or> w_index (torn_env ''id-2'') = Index_torn \<or>
      w_metadata (torn_env ''id-2'') \<noteq> Written"
    by (simp add: env_defs)
  have g: "added_entry (torn_env ''id-2'') ?c = widgets_entry"
    by (simp add: added_entry_def widgets_entry_def env_defs)
  have n: "metadata_path (snd one_ddl) \<noteq> Holds (metadata ?s')"
    by (simp add: one_ddl_def)
  from failed_save_keeps_appends[OF a b c refl, of None] f n
  have 1: "fst (exec (torn_env ''id-2'') ?c one_ddl) = Inl StorageError \<and>
      fst (snd (exec (torn_env ''id-2'') ?c one_ddl)) = ?s' \<and>
      get_training_data ?s' = get_training_data (fst one_ddl) @ [added_entry (torn_env ''id-2'') ?c] \<and>
      init_store None (snd (snd (exec (torn_env ''id-2'') ?c one_ddl))) \<noteq> Inr ?s'"
    by blast
  let ?d = "Add_ddl ''CREATE TABLE t(id INT)''"
  let ?jx = "\<lparr>faiss_d = int (length [1, 0, 0 :: real]), faiss_rows = []\<rparr>"
  let ?t' = "(fst (fresh_store, empty_disk))\<lparr>dimension := Some (int (length [1, 0, 0 :: real])),
               index := Some (?jx\<lparr>faiss_rows := faiss_rows ?jx @ [[1, 0, 0]]\<rparr>),
               metadata := metadata (fst (fresh_store, empty_disk)) @
                 [added_entry (unreported_env ''id-1'') ?d]\<rparr>"
  have a': "added_text ?d = Some ''CREATE TABLE t(id INT)''" by simp
  have b': "embed (unreported_env ''id-1'') ''CREATE TABLE t(id INT)'' = Some [1, 0, 0]"
    by (simp add: env_defs)
  have c': "(index (fst (fresh_store, empty_disk)) = None \<and>
          w_dimension (unreported_env ''id-1'') = Written \<and>
          ?jx = \<lparr>faiss_d = int (length [1, 0, 0 :: real]), faiss_rows = []\<rparr>) \<or>
         (index (fst (fresh_store, empty_disk)) = Some ?jx \<and>
          dimension (fst (fresh_store, empty_disk)) = Some (int (length [1, 0, 0 :: real])) \<and>
          faiss_d ?jx = int (length [1, 0, 0 :: real]))"
    by (simp add: fresh_store_def env_defs)
  have f': "w_index (unreported_env ''id-1'') = Index_unreported \<and>
      w_metadata (unreported_env ''id-1'') = Written"
    by (simp add: env_defs)
  have g': "?t' = fst one_ddl"
    by (simp add: added_entry_def fresh_store_def one_ddl_def env_defs)
  from failed_save_keeps_appends[OF a' b' c' refl, of None] f'
  have 2: "fst (exec (unreported_env ''id-1'') ?d (fresh_store, empty_disk)) =
        Inr (Ident (uuid4 (unreported_env ''id-1''))) \<and>
      fst (snd (exec (unreported_env ''id-1'') ?d (fresh_store, empty_disk))) = ?t' \<and>
      init_store None (snd (snd (exec (unreported_env ''id-1'') ?d (fresh_store, empty_disk)))) =
        Inl StorageError"
    by blast
  have u: "uuid4 (unreported_env ''id-1'') = ''id-1''" by (simp add: env_defs)
  from 1 2 show ?thesis unfolding g g' u by metis
qed

text \<open>
  The claim as written fails: the index write is refused, the directory is as before
  and reloads as the store of one record, and the store in memory holds two.
\<close>

theorem failed_save_counterexample:
  "fst (exec (refused_env ''id-2'') (Add_documentation ''t stores widgets'') one_ddl) =
     Inl StorageError \<and>
   get_training_data
     (fst (snd (exec (refused_env ''id-2'') (Add_documentation ''t stores widgets'') one_ddl))) =
     get_training_data (fst one_ddl) @ [widgets_entry] \<and>
   index_count
     (fst (snd (exec (refused_env ''id-2'') (Add_documentation ''t stores widgets'') one_ddl))) = 2 \<and>
   snd (snd (exec (refused_env ''id-2'') (Add_documentation ''t stores widgets'') one_ddl)) =
     snd one_ddl \<and>
   init_store None (snd one_ddl) = Inr (fst one_ddl) \<and>
   length (get_training_data (fst one_ddl)) = 1"
  by (simp add: eval_defs refused_env_def one_ddl_def widgets_entry_def init_store_def
      path_exists_def index_count_def ntotal_def)

section \<open>Dimension lock-in\<close>

text \<open>
  Claim C4. When an add (\<^verbatim>\<open>add_ddl\<close>, \<^verbatim>\<open>add_documentation\<close>, \<^verbatim>\<open>add_question_sql\<close>) returns
  for an embedding \<open>e\<close>, the dimension of the store is the length of \<open>e\<close>; it still is
  after any further sequence of calls; and an add whose embedding has another length
  then raises the \<^verbatim>\<open>ValueError\<close> of the width check and leaves store and directory
  as they were.
\<close>

theorem dimension_lock_in:
  assumes "added_text c = Some t" and "embed ev t = Some e"
    and "exec ev c st = (Inr r, st1)"
    and "added_text c' = Some t'" and "embed ev' t' = Some e'"
    and "length e' \<noteq> length e"
  shows "dimension (fst st1) = Some (int (length e)) \<and>
         dimension (fst (run calls st1)) = Some (int (length e)) \<and>
         exec ev' c' (run calls st1) = (Inl DimensionMismatch, run calls st1)"
proof -
  have l1: "locked (int (length e)) st1" using assms(1-3) by (rule exec_add_success)
  then have l2: "locked (int (length e)) (run calls st1)" by (rule run_locked)
  have "int (length e') \<noteq> int (length e)" using assms(6) by simp
  with assms(4,5) l2 have "exec ev' c' (run calls st1) = (Inl DimensionMismatch, run calls st1)"
    by (rule exec_add_mismatch)
  then show ?thesis using l1 l2 by (simp add: locked_def)
qed

text \<open>
  An instance: after the first add of the worked scenario the width is three, and a
  question of width two is refused after a further add.
\<close>

theorem dimension_lock_in_witness:
  "exec (demo_env ''id-1'') (Add_ddl ''CREATE TABLE t(id INT)'') (fresh_store, empty_disk) =
     (Inr (Ident ''id-1''), one_ddl) \<and>
   dimension (fst one_ddl) = Some 3 \<and>
   dimension (fst (run [(demo_env ''id-2'', Add_documentation ''t stores widgets'')] one_ddl)) = Some 3 \<and>
   exec (demo_env ''id-3'') (Add_question_sql ''wide'' ''SELECT 1'')
     (run [(demo_env ''id-2'', Add_documentation ''t stores widgets'')] one_ddl) =
     (Inl DimensionMismatch, run [(demo_env ''id-2'', Add_documentation ''t stores widgets'')] one_ddl)"
proof -
  have a: "added_text (Add_ddl ''CREATE TABLE t(id INT)'') = Some ''CREATE TABLE t(id INT)''" by simp
  have b: "embed (demo_env ''id-1'') ''CREATE TABLE t(id INT)'' = Some [1, 0, 0]"
    by (simp add: demo_env_def demo_provider_def)
  have c: "exec (demo_env ''id-1'') (Add_ddl ''CREATE TABLE t(id INT)'') (fresh_store, empty_disk) =
     (Inr (Ident ''id-1''), one_ddl)"
    by (simp add: eval_defs one_ddl_def)
  have d: "added_text (Add_question_sql ''wide'' ''SELECT 1'') = Some ''wide''" by simp
  have e: "embed (demo_env ''id-3'') ''wide'' = Some [1, 2]"
    by (simp add: demo_env_def demo_provider_def)
  have f: "length [1, 2 :: real] \<noteq> length [1, 0, 0 :: real]" by simp
  from dimension_lock_in[OF a b c d e f, of "[(demo_env ''id-2'', Add_documentation ''t stores widgets'')]"] c
  show ?thesis by simp
qed

section \<open>Startup\<close>

text \<open>
  Claim C5, as the source has it. \<^verbatim>\<open>__init__\<close> builds the empty store, with the
  configured dimension, whenever the index file or the ledger file is absent, also
  when the other one is present. When both are present it raises if the index, the
  ledger or a present \<^verbatim>\<open>dimension.txt\<close> is unreadable, and otherwise loads index and
  ledger, with the dimension of \<^verbatim>\<open>dimension.txt\<close> or, without that file, the width of
  the index. An index file that holds the library's null index loads as \<^verbatim>\<open>None\<close>, and
  without \<^verbatim>\<open>dimension.txt\<close> the read of its width raises.
\<close>

theorem init_store_outcomes:
  "(index_path dk = Absent \<or> metadata_path dk = Absent \<longrightarrow>
      init_store cfg dk = Inr \<lparr>dimension = cfg, index = None, metadata = []\<rparr>) \<and>
   (index_path dk \<noteq> Absent \<and> metadata_path dk \<noteq> Absent \<and>
    (index_path dk = Unreadable \<or> metadata_path dk = Unreadable \<or>
     dimension_path dk = Unreadable) \<longrightarrow>
      init_store cfg dk = Inl StorageError) \<and>
   (index_path dk = Holds (Some ix) \<and> metadata_path dk = Holds md \<and>
    dimension_path dk = Holds n \<longrightarrow>
      init_store cfg dk = Inr \<lparr>dimension = Some n, index = Some ix, metadata = md\<rparr>) \<and>
   (index_path dk = Holds (Some ix) \<and> metadata_path dk = Holds md \<and>
    dimension_path dk = Absent \<longrightarrow>
      init_store cfg dk = Inr \<lparr>dimension = Some (faiss_d ix), index = Some ix, metadata = md\<rparr>) \<and>
   (index_path dk = Holds None \<and> metadata_path dk = Holds md \<and>
    dimension_path dk = Holds n \<longrightarrow>
      init_store cfg dk = Inr \<lparr>dimension = Some n, index = None, metadata = md\<rparr>) \<and>
   (index_path dk = Holds None \<and> metadata_path dk = Holds md \<and>
    dimension_path dk = Absent \<longrightarrow>
      init_store cfg dk = Inl AttributeError)"
  by (cases "index_path dk"; cases "metadata_path dk"; cases "dimension_path dk")
     (simp_all add: init_store_def path_exists_def)

text \<open>
  Instances: a directory with an index and no ledger, one with an unreadable ledger,
  and the directory written by the first add of the worked scenario.
\<close>

theorem init_store_outcomes_witness:
  "(index_path index_only_disk = Absent \<or> metadata_path index_only_disk = Absent) \<and>
   init_store (Some 7) index_only_disk = Inr \<lparr>dimension = Some 7, index = None, metadata = []\<rparr> \<and>
   (index_path corrupt_ledger_disk \<noteq> Absent \<and> metadata_path corrupt_ledger_disk \<noteq> Absent \<and>
    (index_path corrupt_ledger_disk = Unreadable \<or> metadata_path corrupt_ledger_disk = Unreadable \<or>
     dimension_path corrupt_ledger_disk = Unreadable)) \<and>
   init_store (Some 7) corrupt_ledger_disk = Inl StorageError \<and>
   init_store None (snd one_ddl) = Inr (fst one_ddl)"
proof -
  have a: "index_path index_only_disk = Absent \<or> metadata_path index_only_disk = Absent"
    by (simp add: index_only_disk_def)
  have b: "index_path corrupt_ledger_disk \<noteq> Absent \<and> metadata_path corrupt_ledger_disk \<noteq> Absent \<and>
    (index_path corrupt_ledger_disk = Unreadable \<or> metadata_path corrupt_ledger_disk = Unreadable \<or>
     dimension_path corrupt_ledger_disk = Unreadable)"
    by (simp add: corrupt_ledger_disk_def)
  have c: "index_path (snd one_ddl) = Holds (Some \<lparr>faiss_d = 3, faiss_rows = [[1, 0, 0]]\<rparr>) \<and>
     metadata_path (snd one_ddl) = Holds (metadata (fst one_ddl)) \<and>
     dimension_path (snd one_ddl) = Holds 3"
    by (simp add: one_ddl_def)
  have d: "\<lparr>dimension = Some 3, index = Some \<lparr>faiss_d = 3, faiss_rows = [[1, 0, 0]]\<rparr>,
            metadata = metadata (fst one_ddl)\<rparr> = fst one_ddl"
    by (simp add: one_ddl_def)
  from init_store_outcomes[of index_only_disk "Some 7"] a
  have 1: "init_store (Some 7) index_only_disk = Inr \<lparr>dimension = Some 7, index = None, metadata = []\<rparr>"
    by blast
  from init_store_outcomes[of corrupt_ledger_disk "Some 7"] b
  have 2: "init_store (Some 7) corrupt_ledger_disk = Inl StorageError" by blast
  from init_store_outcomes[of "snd one_ddl" None "\<lparr>faiss_d = 3, faiss_rows = [[1, 0, 0]]\<rparr>"
      "metadata (fst one_ddl)" 3] c d
  have 3: "init_store None (snd one_ddl) = Inr (fst one_ddl)" by simp
  from a 1 b 2 3 show ?thesis by blast
qed

text \<open>
  The claim as written fails: the index file exists, the ledger file does not, and
  \<^verbatim>\<open>__init__\<close> returns the empty store.
\<close>

theorem init_store_counterexample:
  "path_exists (index_path index_only_disk) \<and>
   \<not> path_exists (metadata_path index_only_disk) \<and>
   init_store None index_only_disk \<noteq> Inl StorageError \<and>
   init_store None index_only_disk = Inr \<lparr>dimension = None, index = None, metadata = []\<rparr>"
  by (simp add: init_store_def index_only_disk_def path_exists_def)

section \<open>Ranked search\<close>

text \<open>
  Claim C6. For a store whose index and ledger are aligned and a query of the width of
  the index, the search that \<^verbatim>\<open>get_similar_embeddings\<close> runs for \<open>k\<close> neighbours
  returns exactly \<open>min k m\<close> hits, \<open>m\<close> the number of rows: pairs of a position and
  the squared Euclidean distance of the row at that position, at distinct positions,
  in ascending distance, the earlier row first at equal distance, and no row left out
  ranks before a returned one. \<^verbatim>\<open>get_similar_embeddings\<close> returns the records at these
  positions in this order.
\<close>

theorem search_ranked:
  assumes "index s = Some ix" and "aligned s" and "int (length q) = faiss_d ix"
    and "hits = faiss_hits ix q (min k (ntotal ix))"
  shows "faiss_search ix q (min k (ntotal ix)) = Inr (map fst hits) \<and>
     length hits = min k (ntotal ix) \<and>
     sorted_wrt hit_before hits \<and>
     distinct (map fst hits) \<and>
     (\<forall>h\<in>set hits. \<exists>j<ntotal ix. h = (int j, l2sqr q (faiss_rows ix ! j))) \<and>
     (\<forall>j<ntotal ix. int j \<notin> fst ` set hits \<longrightarrow>
        (\<forall>h\<in>set hits. hit_before h (int j, l2sqr q (faiss_rows ix ! j)))) \<and>
     get_similar_embeddings s q k = Inr (map (\<lambda>h. metadata s ! nat (fst h)) hits)"
proof (intro conjI)
  show "faiss_search ix q (min k (ntotal ix)) = Inr (map fst hits)"
    unfolding assms(4) using assms(3) by (rule faiss_search_labels) simp
  show "length hits = min k (ntotal ix)"
    by (simp add: assms(4) length_faiss_hits)
  show "sorted_wrt hit_before hits"
    unfolding assms(4) by (rule sorted_faiss_hits)
  show "distinct (map fst hits)"
    unfolding assms(4) by (rule distinct_faiss_hits)
  show "\<forall>h\<in>set hits. \<exists>j<ntotal ix. h = (int j, l2sqr q (faiss_rows ix ! j))"
    unfolding assms(4) using faiss_hits_member by blast
  show "\<forall>j<ntotal ix. int j \<notin> fst ` set hits \<longrightarrow>
        (\<forall>h\<in>set hits. hit_before h (int j, l2sqr q (faiss_rows ix ! j)))"
    unfolding assms(4) using faiss_hits_nearest by blast
  have len: "length (metadata s) = ntotal ix"
    using assms(1,2) by (simp add: aligned_def index_count_def)
  have "\<forall>i\<in>set (map fst hits). i < int (length (metadata s))"
    unfolding assms(4) len using faiss_hits_member[of _ ix q "min k (ntotal ix)"] by fastforce
  then have "filter (\<lambda>i. i < int (length (metadata s))) (map fst hits) = map fst hits"
    by (simp only: filter_True)
  then show "get_similar_embeddings s q k = Inr (map (\<lambda>h. metadata s ! nat (fst h)) hits)"
    using get_similar_embeddings_eq[OF assms(1,3), of k] by (simp add: assms(4) comp_def)
qed

text \<open>
  An instance: the store of the worked scenario, the query of its question and two
  neighbours; rows 0 and 1 are equally far and row 0 is returned.
\<close>

theorem search_ranked_witness:
  "index three_store = Some \<lparr>faiss_d = 3, faiss_rows = [[1, 0, 0], [0, 1, 0], [0, 0, 1]]\<rparr> \<and>
   aligned three_store \<and>
   faiss_hits \<lparr>faiss_d = 3, faiss_rows = [[1, 0, 0], [0, 1, 0], [0, 0, 1]]\<rparr> [0, 0, 1]
     (min 2 (ntotal \<lparr>faiss_d = 3, faiss_rows = [[1, 0, 0], [0, 1, 0], [0, 0, 1]]\<rparr>)) =
     [(2, 0), (0, 2)] \<and>
   sorted_wrt hit_before [(2, 0), (0, 2)] \<and>
   get_similar_embeddings three_store [0, 0, 1] 2 =
     Inr [metadata three_store ! 2, metadata three_store ! 0]"
proof -
  let ?ix = "\<lparr>faiss_d = 3, faiss_rows = [[1, 0, 0], [0, 1, 0], [0, 0, 1]]\<rparr>"
  have a: "index three_store = Some ?ix" by (simp add: three_store_def)
  have b: "aligned three_store"
    by (simp add: aligned_def index_count_def ntotal_def three_store_def)
  have c: "int (length [0, 0, 1 :: real]) = faiss_d ?ix" by simp
  have d: "[(2, 0), (0, 2)] = faiss_hits ?ix [0, 0, 1] (min 2 (ntotal ?ix))"
    by (simp add: faiss_hits_def l2sqr_def ntotal_def)
  from search_ranked[OF a b c d]
  have "sorted_wrt hit_before [(2, 0), (0, 2)] \<and>
    get_similar_embeddings three_store [0, 0, 1] 2 =
      Inr (map (\<lambda>h. metadata three_store ! nat (fst h)) [(2, 0), (0, 2 :: real)])"
    by blast
  then have "sorted_wrt hit_before [(2, 0), (0, 2)] \<and>
    get_similar_embeddings three_store [0, 0, 1] 2 =
      Inr [metadata three_store ! 2, metadata three_store ! 0]"
    by simp
  with a b d show ?thesis by simp
qed

section \<open>Retrieval by kind\<close>



section \<open>Round trip\<close>

text \<open>
  Claim C8, as the source has it. \<^verbatim>\<open>_save\<close> writes index and ledger and not
  \<^verbatim>\<open>dimension.txt\<close>. After a save that returns and whose index write took effect,
  \<^verbatim>\<open>__init__\<close> over the directory raises when \<^verbatim>\<open>dimension.txt\<close> is unreadable, or when it
  is absent and the index is \<^verbatim>\<open>None\<close>; otherwise it loads the same rows and the same
  ledger, and as dimension the number in \<^verbatim>\<open>dimension.txt\<close>, or the width of the index
  when that file is absent. After a save that returns although its index write failed
  unreported, \<^verbatim>\<open>__init__\<close> raises. When the store is what \<^verbatim>\<open>__init__\<close> loads from its
  directory, it is so again after every call that returns and whose index write did not
  fail unreported.
\<close>

theorem round_trip:
  "(save ev s dk = (Inr u, dk') \<and> w_index ev \<noteq> Index_unreported \<longrightarrow>
      init_store cfg dk' =
        (case dimension_path dk of
           Absent \<Rightarrow>
             (case index s of
                None \<Rightarrow> Inl AttributeError
              | Some ix \<Rightarrow> Inr (s\<lparr>dimension := Some (faiss_d ix)\<rparr>))
         | Unreadable \<Rightarrow> Inl StorageError
         | Holds n \<Rightarrow> Inr (s\<lparr>dimension := Some n\<rparr>))) \<and>
   (save ev s dk = (Inr u, dk') \<and> w_index ev = Index_unreported \<longrightarrow>
      init_store cfg dk' = Inl StorageError) \<and>
   (init_store cfg (snd st) = Inr (fst st) \<and> exec ev' c st = (Inr r, st') \<and>
    w_index ev' \<noteq> Index_unreported \<longrightarrow>
      init_store cfg (snd st') = Inr (fst st'))"
proof (intro conjI impI)
  assume "save ev s dk = (Inr u, dk') \<and> w_index ev \<noteq> Index_unreported"
  then show "init_store cfg dk' =
        (case dimension_path dk of
           Absent \<Rightarrow>
             (case index s of
                None \<Rightarrow> Inl AttributeError
              | Some ix \<Rightarrow> Inr (s\<lparr>dimension := Some (faiss_d ix)\<rparr>))
         | Unreadable \<Rightarrow> Inl StorageError
         | Holds n \<Rightarrow> Inr (s\<lparr>dimension := Some n\<rparr>))"
    using save_load[of ev s dk u dk' cfg] by simp
next
  assume "save ev s dk = (Inr u, dk') \<and> w_index ev = Index_unreported"
  then show "init_store cfg dk' = Inl StorageError"
    using save_load_unreported[of ev s dk u dk' cfg] by simp
next
  assume "init_store cfg (snd st) = Inr (fst st) \<and> exec ev' c st = (Inr r, st') \<and>
    w_index ev' \<noteq> Index_unreported"
  then show "init_store cfg (snd st') = Inr (fst st')"
    using exec_durable[of cfg st ev' c r st'] by simp
qed

text \<open>
  Instances: a save over a directory whose \<^verbatim>\<open>dimension.txt\<close> says two, and the first
  add of the worked scenario over an empty directory.
\<close>

theorem round_trip_witness:
  "save (demo_env ''id-1'') (fst one_ddl) stale_disk = (Inr (), stale_saved_disk) \<and>
   w_index (demo_env ''id-1'') \<noteq> Index_unreported \<and>
   init_store None stale_saved_disk = Inr ((fst one_ddl)\<lparr>dimension := Some 2\<rparr>) \<and>
   init_store None (snd (fresh_store, empty_disk)) = Inr (fst (fresh_store, empty_disk)) \<and>
   exec (demo_env ''id-1'') (Add_ddl ''CREATE TABLE t(id INT)'') (fresh_store, empty_disk) =
     (Inr (Ident ''id-1''), one_ddl) \<and>
   init_store None (snd one_ddl) = Inr (fst one_ddl)"
proof -
  have b: "save (demo_env ''id-1'') (fst one_ddl) stale_disk = (Inr (), stale_saved_disk)"
    by (simp add: eval_defs one_ddl_def stale_disk_def stale_saved_disk_def)
  have w: "w_index (demo_env ''id-1'') \<noteq> Index_unreported" by (simp add: demo_env_def)
  have c: "init_store None (snd (fresh_store, empty_disk)) = Inr (fst (fresh_store, empty_disk))"
    by (simp add: init_store_def empty_disk_def fresh_store_def path_exists_def)
  have d: "exec (demo_env ''id-1'') (Add_ddl ''CREATE TABLE t(id INT)'') (fresh_store, empty_disk) =
     (Inr (Ident ''id-1''), one_ddl)"
    by (simp add: eval_defs one_ddl_def)
  have e: "dimension_path stale_disk = Holds 2" by (simp add: stale_disk_def)
  from round_trip[where s = "fst one_ddl" and ev = "demo_env ''id-1''" and dk = stale_disk
      and dk' = stale_saved_disk and cfg = None] b w
  have "init_store None stale_saved_disk =
        (case dimension_path stale_disk of
           Absent \<Rightarrow>
             (case index (fst one_ddl) of
                None \<Rightarrow> Inl AttributeError
              | Some ix \<Rightarrow> Inr ((fst one_ddl)\<lparr>dimension := Some (faiss_d ix)\<rparr>))
         | Unreadable \<Rightarrow> Inl StorageError
         | Holds n \<Rightarrow> Inr ((fst one_ddl)\<lparr>dimension := Some n\<rparr>))"
    by blast
  then have 1: "init_store None stale_saved_disk = Inr ((fst one_ddl)\<lparr>dimension := Some 2\<rparr>)"
    by (simp add: e)
  from round_trip[where cfg = None and st = "(fresh_store, empty_disk)"
      and ev' = "demo_env ''id-1''" and c = "Add_ddl ''CREATE TABLE t(id INT)''"
      and r = "Ident ''id-1''" and st' = one_ddl] c d w
  have 2: "init_store None (snd one_ddl) = Inr (fst one_ddl)" by blast
  from b w 1 c d 2 show ?thesis by blast
qed

text \<open>
  The claim as written fails, twice. An add of width two over an empty directory
  writes \<^verbatim>\<open>dimension.txt\<close> and fails in the index write; a new store over that directory
  starts empty; its first add of width three fails in the write of \<^verbatim>\<open>dimension.txt\<close>,
  its second one returns: the store has dimension three, and what \<^verbatim>\<open>__init__\<close> loads
  from the saved directory has dimension two. And an add over an empty directory whose
  index write fails unreported returns, and \<^verbatim>\<open>__init__\<close> over the saved directory
  raises.
\<close>

theorem round_trip_counterexample:
  "snd (run [(refused_env ''id-0'', Add_ddl ''wide'')] (fresh_store, empty_disk)) = stale_disk \<and>
   init_store None stale_disk = Inr fresh_store \<and>
   exec (demo_env ''id-1'') (Add_ddl ''CREATE TABLE t(id INT)'')
     (run [(refused_dimension_env ''id-1'', Add_ddl ''CREATE TABLE t(id INT)'')]
        (fresh_store, stale_disk)) =
     (Inr (Ident ''id-1''), fst one_ddl, stale_saved_disk) \<and>
   dimension (fst one_ddl) = Some 3 \<and>
   init_store None stale_saved_disk = Inr ((fst one_ddl)\<lparr>dimension := Some 2\<rparr>) \<and>
   init_store None stale_saved_disk \<noteq> Inr (fst one_ddl) \<and>
   fst (exec (unreported_env ''id-1'') (Add_ddl ''CREATE TABLE t(id INT)'')
          (fresh_store, empty_disk)) = Inr (Ident ''id-1'') \<and>
   init_store None
     (snd (snd (exec (unreported_env ''id-1'') (Add_ddl ''CREATE TABLE t(id INT)'')
                 (fresh_store, empty_disk)))) = Inl StorageError"
  by (simp add: eval_defs env_defs one_ddl_def stale_disk_def
      stale_saved_disk_def init_store_def path_exists_def)

section \<open>The empty store\<close>

text \<open>
  Claim C9. On a store whose index is \<^verbatim>\<open>None\<close> or has no rows,
  \<^verbatim>\<open>get_similar_embeddings\<close> returns the empty list for every query, every \<open>n\<close> and
  every library, without calling the library, and for every question the provider
  embeds \<^verbatim>\<open>get_related_ddl\<close>, \<^verbatim>\<open>get_related_documentation\<close> and
  \<^verbatim>\<open>get_similar_question_sql\<close> return the empty list.
\<close>

theorem empty_store_results:
  assumes "index_count s = 0" and "embed ev q = Some e"
  shows "get_similar_embeddings_with lib s v n = Inr [] \<and>
     get_similar_embeddings s v n = Inr [] \<and>
     get_related_ddl ev s q = Inr [] \<and>
     get_related_documentation ev s q = Inr [] \<and>
     get_similar_question_sql ev s q = Inr []"
  using assms(2)
  by (simp add: get_similar_embeddings_with_empty[OF assms(1)] get_similar_embeddings_def
      get_related_ddl_def get_related_documentation_def get_similar_question_sql_def)

text \<open>
  Instances: the store over an empty directory, and a store whose index has no rows
  with the library in \<^verbatim>\<open>float32\<close>, asked for no neighbour.
\<close>

theorem empty_store_results_witness:
  "index_count fresh_store = 0 \<and>
   embed (demo_env []) ''how many rows'' = Some [0, 0, 1] \<and>
   get_similar_embeddings fresh_store [0, 0, 1] 5 = Inr [] \<and>
   get_related_ddl (demo_env []) fresh_store ''how many rows'' = Inr [] \<and>
   get_related_documentation (demo_env []) fresh_store ''how many rows'' = Inr [] \<and>
   get_similar_question_sql (demo_env []) fresh_store ''how many rows'' = Inr [] \<and>
   index_count empty_index_store = 0 \<and>
   get_similar_embeddings_with faiss_search32 empty_index_store [7] 0 = Inr [] \<and>
   get_related_ddl (float32_env []) empty_index_store ''how many rows'' = Inr []"
proof -
  have a: "index_count fresh_store = 0" by (simp add: index_count_def fresh_store_def)
  have b: "embed (demo_env []) ''how many rows'' = Some [0, 0, 1]"
    by (simp add: env_defs)
  have a': "index_count empty_index_store = 0"
    by (simp add: index_count_def ntotal_def empty_index_store_def)
  have b': "embed (float32_env []) ''how many rows'' = Some [0, 0, 1]"
    by (simp add: env_defs)
  from empty_store_results[OF a b, of faiss_search "[0, 0, 1]" 5]
  have 1: "get_similar_embeddings fresh_store [0, 0, 1] 5 = Inr [] \<and>
     get_related_ddl (demo_env []) fresh_store ''how many rows'' = Inr [] \<and>
     get_related_documentation (demo_env []) fresh_store ''how many rows'' = Inr [] \<and>
     get_similar_question_sql (demo_env []) fresh_store ''how many rows'' = Inr []"
    by blast
  from empty_store_results[OF a' b', of faiss_search32 "[7]" 0]
  have 2: "get_similar_embeddings_with faiss_search32 empty_index_store [7] 0 = Inr [] \<and>
     get_related_ddl (float32_env []) empty_index_store ''how many rows'' = Inr []"
    by blast
  from a b 1 a' 2 show ?thesis by blast
qed

section \<open>Lookup of the matched positions\<close>

text \<open>
  Claim C10 does not hold of the source: the guard of line 110 has no lower bound. Two
  adds build an aligned store with vectors of magnitude \<open>10\<^sup>2\<^sup>0\<close>; for a query on the
  other side the squared distances overflow in \<^verbatim>\<open>float32\<close>, the library labels both
  slots \<open>-1\<close>, the guard lets \<open>-1\<close> pass, and \<^verbatim>\<open>metadata[-1]\<close> is returned twice: the
  last record, at no matched position. Over a directory whose ledger is empty beside
  an index of one row, the same lookup raises \<^verbatim>\<open>IndexError\<close>. What the claim says of
  labels at or beyond the length of the ledger holds: with three rows and one record,
  the labels 2 and 1 are dropped and the record at label 0 is returned.
\<close>

theorem lookup_minus_one:
  "fst (run [(float32_env ''id-1'', Add_ddl ''east''),
             (float32_env ''id-2'', Add_documentation ''far east'')]
          (fresh_store, empty_disk)) = east_store \<and>
   aligned east_store \<and>
   embed (float32_env []) ''west'' = Some [- (10 ^ 20)] \<and>
   faiss_search32 \<lparr>faiss_d = 1, faiss_rows = [[10 ^ 20], [2 * 10 ^ 20]]\<rparr> [- (10 ^ 20)] 2 =
     Inr [- 1, - 1] \<and>
   get_similar_embeddings_with faiss_search32 east_store [- (10 ^ 20)] 5 =
     Inr [metadata east_store ! 1, metadata east_store ! 1] \<and>
   get_related_documentation (float32_env []) east_store ''west'' =
     Inr [''far east'', ''far east''] \<and>
   init_store None ledgerless_disk = Inr ledgerless_store \<and>
   get_similar_embeddings_with faiss_search32 ledgerless_store [- (10 ^ 20)] 5 =
     Inl IndexError \<and>
   get_related_ddl (float32_env []) ledgerless_store ''west'' = Inl IndexError \<and>
   get_similar_embeddings_with faiss_search32 lopsided_store [0, 0, 1] 5 =
     Inr [metadata lopsided_store ! 0]"
proof (intro conjI)
  show "fst (run [(float32_env ''id-1'', Add_ddl ''east''),
             (float32_env ''id-2'', Add_documentation ''far east'')]
          (fresh_store, empty_disk)) = east_store"
    by (simp add: eval_defs env_defs east_store_def)
  show "aligned east_store"
    by (simp add: aligned_def index_count_def ntotal_def east_store_def)
  show "embed (float32_env []) ''west'' = Some [- (10 ^ 20)]" by (simp add: env_defs)
  show "faiss_search32 \<lparr>faiss_d = 1, faiss_rows = [[10 ^ 20], [2 * 10 ^ 20]]\<rparr>
      [- (10 ^ 20)] 2 = Inr [- 1, - 1]"
    by (simp add: search32_eval)
  show "get_similar_embeddings_with faiss_search32 east_store [- (10 ^ 20)] 5 =
     Inr [metadata east_store ! 1, metadata east_store ! 1]"
    by (simp add: search32_eval east_store_def)
  show "get_related_documentation (float32_env []) east_store ''west'' =
     Inr [''far east'', ''far east'']"
    by (simp add: get_related_documentation_def env_defs search32_eval east_store_def
        has_type_def item_def)
  show "init_store None ledgerless_disk = Inr ledgerless_store"
    by (simp add: init_store_def ledgerless_disk_def ledgerless_store_def path_exists_def)
  show "get_similar_embeddings_with faiss_search32 ledgerless_store [- (10 ^ 20)] 5 =
     Inl IndexError"
    by (simp add: search32_eval ledgerless_store_def)
  show "get_related_ddl (float32_env []) ledgerless_store ''west'' = Inl IndexError"
    by (simp add: get_related_ddl_def env_defs search32_eval ledgerless_store_def)
  show "get_similar_embeddings_with faiss_search32 lopsided_store [0, 0, 1] 5 =
     Inr [metadata lopsided_store ! 0]"
    by (simp add: search32_eval lopsided_store_def)
qed

end
